theory Spec2Isabelle
  imports Complex_Main
begin

section \<open>Python strings\<close>

text \<open>
  A Python \<open>str\<close> is a sequence of Unicode code points, so a string is a list of code
  points. The unit names of \<open>OpticalPhase\<close> use three letters outside ASCII: the Greek
  small letters mu (956) and lamda (955) and the Latin capital A with ring above (197).
\<close>

type_synonym ustr = "nat list"

definition asc :: "string \<Rightarrow> ustr" where
  "asc s = map of_char s"

text \<open>
  \<open>str.lower\<close> and \<open>str.upper\<close> are built into Python; the tables below are those of
  CPython 3.11 (Unicode 14.0). A rule \<open>(lo, hi, stride, target)\<close> maps the code points
  \<open>lo, lo + stride, ...\<close> up to \<open>hi\<close> to \<open>target, target + stride, ...\<close>; the rules are
  sorted by \<open>lo\<close>, and a code point that no rule maps stays as it is.
\<close>

fun map_cp :: "(nat \<times> nat \<times> nat \<times> nat) list \<Rightarrow> nat \<Rightarrow> nat" where
  "map_cp [] c = c"
| "map_cp ((lo, hi, stride, target) # rs) c =
     (if c < lo then c
      else if c \<le> hi \<and> (c - lo) mod stride = 0 then target + (c - lo)
      else map_cp rs c)"

fun in_ranges :: "(nat \<times> nat) list \<Rightarrow> nat \<Rightarrow> bool" where
  "in_ranges [] c = False"
| "in_ranges ((lo, hi) # rs) c = (if c < lo then False else if c \<le> hi then True else in_ranges rs c)"

definition lower_rules :: "(nat \<times> nat \<times> nat \<times> nat) list" where
  "lower_rules =
    [(65, 90, 1, 97), (192, 214, 1, 224), (216, 222, 1, 248), (256, 302, 2, 257),
     (306, 310, 2, 307), (313, 327, 2, 314), (330, 374, 2, 331), (376, 376, 1, 255),
     (377, 381, 2, 378), (385, 385, 1, 595), (386, 388, 2, 387), (390, 390, 1, 596),
     (391, 391, 1, 392), (393, 394, 1, 598), (395, 395, 1, 396), (398, 398, 1, 477),
     (399, 399, 1, 601), (400, 400, 1, 603), (401, 401, 1, 402), (403, 403, 1, 608),
     (404, 404, 1, 611), (406, 406, 1, 617), (407, 407, 1, 616), (408, 408, 1, 409),
     (412, 412, 1, 623), (413, 413, 1, 626), (415, 415, 1, 629), (416, 420, 2, 417),
     (422, 422, 1, 640), (423, 423, 1, 424), (425, 425, 1, 643), (428, 428, 1, 429),
     (430, 430, 1, 648), (431, 431, 1, 432), (433, 434, 1, 650), (435, 437, 2, 436),
     (439, 439, 1, 658), (440, 440, 1, 441), (444, 444, 1, 445), (452, 452, 1, 454),
     (453, 453, 1, 454), (455, 455, 1, 457), (456, 456, 1, 457), (458, 458, 1, 460),
     (459, 475, 2, 460), (478, 494, 2, 479), (497, 497, 1, 499), (498, 500, 2, 499),
     (502, 502, 1, 405), (503, 503, 1, 447), (504, 542, 2, 505), (544, 544, 1, 414),
     (546, 562, 2, 547), (570, 570, 1, 11365), (571, 571, 1, 572), (573, 573, 1, 410),
     (574, 574, 1, 11366), (577, 577, 1, 578), (579, 579, 1, 384), (580, 580, 1, 649),
     (581, 581, 1, 652), (582, 590, 2, 583), (880, 882, 2, 881), (886, 886, 1, 887),
     (895, 895, 1, 1011), (902, 902, 1, 940), (904, 906, 1, 941), (908, 908, 1, 972),
     (910, 911, 1, 973), (913, 929, 1, 945), (931, 939, 1, 963), (975, 975, 1, 983),
     (984, 1006, 2, 985), (1012, 1012, 1, 952), (1015, 1015, 1, 1016), (1017, 1017, 1, 1010),
     (1018, 1018, 1, 1019), (1021, 1023, 1, 891), (1024, 1039, 1, 1104), (1040, 1071, 1, 1072),
     (1120, 1152, 2, 1121), (1162, 1214, 2, 1163), (1216, 1216, 1, 1231), (1217, 1229, 2, 1218),
     (1232, 1326, 2, 1233), (1329, 1366, 1, 1377), (4256, 4293, 1, 11520), (4295, 4295, 1, 11559),
     (4301, 4301, 1, 11565), (5024, 5103, 1, 43888), (5104, 5109, 1, 5112), (7312, 7354, 1, 4304),
     (7357, 7359, 1, 4349), (7680, 7828, 2, 7681), (7838, 7838, 1, 223), (7840, 7934, 2, 7841),
     (7944, 7951, 1, 7936), (7960, 7965, 1, 7952), (7976, 7983, 1, 7968), (7992, 7999, 1, 7984),
     (8008, 8013, 1, 8000), (8025, 8031, 2, 8017), (8040, 8047, 1, 8032), (8072, 8079, 1, 8064),
     (8088, 8095, 1, 8080), (8104, 8111, 1, 8096), (8120, 8121, 1, 8112), (8122, 8123, 1, 8048),
     (8124, 8124, 1, 8115), (8136, 8139, 1, 8050), (8140, 8140, 1, 8131), (8152, 8153, 1, 8144),
     (8154, 8155, 1, 8054), (8168, 8169, 1, 8160), (8170, 8171, 1, 8058), (8172, 8172, 1, 8165),
     (8184, 8185, 1, 8056), (8186, 8187, 1, 8060), (8188, 8188, 1, 8179), (8486, 8486, 1, 969),
     (8490, 8490, 1, 107), (8491, 8491, 1, 229), (8498, 8498, 1, 8526), (8544, 8559, 1, 8560),
     (8579, 8579, 1, 8580), (9398, 9423, 1, 9424), (11264, 11311, 1, 11312), (11360, 11360, 1, 11361),
     (11362, 11362, 1, 619), (11363, 11363, 1, 7549), (11364, 11364, 1, 637), (11367, 11371, 2, 11368),
     (11373, 11373, 1, 593), (11374, 11374, 1, 625), (11375, 11375, 1, 592), (11376, 11376, 1, 594),
     (11378, 11378, 1, 11379), (11381, 11381, 1, 11382), (11390, 11391, 1, 575), (11392, 11490, 2, 11393),
     (11499, 11501, 2, 11500), (11506, 11506, 1, 11507), (42560, 42604, 2, 42561), (42624, 42650, 2, 42625),
     (42786, 42798, 2, 42787), (42802, 42862, 2, 42803), (42873, 42875, 2, 42874), (42877, 42877, 1, 7545),
     (42878, 42886, 2, 42879), (42891, 42891, 1, 42892), (42893, 42893, 1, 613), (42896, 42898, 2, 42897),
     (42902, 42920, 2, 42903), (42922, 42922, 1, 614), (42923, 42923, 1, 604), (42924, 42924, 1, 609),
     (42925, 42925, 1, 620), (42926, 42926, 1, 618), (42928, 42928, 1, 670), (42929, 42929, 1, 647),
     (42930, 42930, 1, 669), (42931, 42931, 1, 43859), (42932, 42946, 2, 42933), (42948, 42948, 1, 42900),
     (42949, 42949, 1, 642), (42950, 42950, 1, 7566), (42951, 42953, 2, 42952), (42960, 42960, 1, 42961),
     (42966, 42968, 2, 42967), (42997, 42997, 1, 42998), (65313, 65338, 1, 65345), (66560, 66599, 1, 66600),
     (66736, 66771, 1, 66776), (66928, 66938, 1, 66967), (66940, 66954, 1, 66979), (66956, 66962, 1, 66995),
     (66964, 66965, 1, 67003), (68736, 68786, 1, 68800), (71840, 71871, 1, 71872), (93760, 93791, 1, 93792),
     (125184, 125217, 1, 125218)]"

definition upper_rules :: "(nat \<times> nat \<times> nat \<times> nat) list" where
  "upper_rules =
    [(97, 122, 1, 65), (181, 181, 1, 924), (224, 246, 1, 192), (248, 254, 1, 216),
     (255, 255, 1, 376), (257, 303, 2, 256), (305, 305, 1, 73), (307, 311, 2, 306),
     (314, 328, 2, 313), (331, 375, 2, 330), (378, 382, 2, 377), (383, 383, 1, 83),
     (384, 384, 1, 579), (387, 389, 2, 386), (392, 392, 1, 391), (396, 396, 1, 395),
     (402, 402, 1, 401), (405, 405, 1, 502), (409, 409, 1, 408), (410, 410, 1, 573),
     (414, 414, 1, 544), (417, 421, 2, 416), (424, 424, 1, 423), (429, 429, 1, 428),
     (432, 432, 1, 431), (436, 438, 2, 435), (441, 441, 1, 440), (445, 445, 1, 444),
     (447, 447, 1, 503), (453, 453, 1, 452), (454, 454, 1, 452), (456, 456, 1, 455),
     (457, 457, 1, 455), (459, 459, 1, 458), (460, 460, 1, 458), (462, 476, 2, 461),
     (477, 477, 1, 398), (479, 495, 2, 478), (498, 498, 1, 497), (499, 499, 1, 497),
     (501, 501, 1, 500), (505, 543, 2, 504), (547, 563, 2, 546), (572, 572, 1, 571),
     (575, 576, 1, 11390), (578, 578, 1, 577), (583, 591, 2, 582), (592, 592, 1, 11375),
     (593, 593, 1, 11373), (594, 594, 1, 11376), (595, 595, 1, 385), (596, 596, 1, 390),
     (598, 599, 1, 393), (601, 601, 1, 399), (603, 603, 1, 400), (604, 604, 1, 42923),
     (608, 608, 1, 403), (609, 609, 1, 42924), (611, 611, 1, 404), (613, 613, 1, 42893),
     (614, 614, 1, 42922), (616, 616, 1, 407), (617, 617, 1, 406), (618, 618, 1, 42926),
     (619, 619, 1, 11362), (620, 620, 1, 42925), (623, 623, 1, 412), (625, 625, 1, 11374),
     (626, 626, 1, 413), (629, 629, 1, 415), (637, 637, 1, 11364), (640, 640, 1, 422),
     (642, 642, 1, 42949), (643, 643, 1, 425), (647, 647, 1, 42929), (648, 648, 1, 430),
     (649, 649, 1, 580), (650, 651, 1, 433), (652, 652, 1, 581), (658, 658, 1, 439),
     (669, 669, 1, 42930), (670, 670, 1, 42928), (837, 837, 1, 921), (881, 883, 2, 880),
     (887, 887, 1, 886), (891, 893, 1, 1021), (940, 940, 1, 902), (941, 943, 1, 904),
     (945, 961, 1, 913), (962, 962, 1, 931), (963, 971, 1, 931), (972, 972, 1, 908),
     (973, 974, 1, 910), (976, 976, 1, 914), (977, 977, 1, 920), (981, 981, 1, 934),
     (982, 982, 1, 928), (983, 983, 1, 975), (985, 1007, 2, 984), (1008, 1008, 1, 922),
     (1009, 1009, 1, 929), (1010, 1010, 1, 1017), (1011, 1011, 1, 895), (1013, 1013, 1, 917),
     (1016, 1016, 1, 1015), (1019, 1019, 1, 1018), (1072, 1103, 1, 1040), (1104, 1119, 1, 1024),
     (1121, 1153, 2, 1120), (1163, 1215, 2, 1162), (1218, 1230, 2, 1217), (1231, 1231, 1, 1216),
     (1233, 1327, 2, 1232), (1377, 1414, 1, 1329), (4304, 4346, 1, 7312), (4349, 4351, 1, 7357),
     (5112, 5117, 1, 5104), (7296, 7296, 1, 1042), (7297, 7297, 1, 1044), (7298, 7298, 1, 1054),
     (7299, 7300, 1, 1057), (7301, 7301, 1, 1058), (7302, 7302, 1, 1066), (7303, 7303, 1, 1122),
     (7304, 7304, 1, 42570), (7545, 7545, 1, 42877), (7549, 7549, 1, 11363), (7566, 7566, 1, 42950),
     (7681, 7829, 2, 7680), (7835, 7835, 1, 7776), (7841, 7935, 2, 7840), (7936, 7943, 1, 7944),
     (7952, 7957, 1, 7960), (7968, 7975, 1, 7976), (7984, 7991, 1, 7992), (8000, 8005, 1, 8008),
     (8017, 8023, 2, 8025), (8032, 8039, 1, 8040), (8048, 8049, 1, 8122), (8050, 8053, 1, 8136),
     (8054, 8055, 1, 8154), (8056, 8057, 1, 8184), (8058, 8059, 1, 8170), (8060, 8061, 1, 8186),
     (8112, 8113, 1, 8120), (8126, 8126, 1, 921), (8144, 8145, 1, 8152), (8160, 8161, 1, 8168),
     (8165, 8165, 1, 8172), (8526, 8526, 1, 8498), (8560, 8575, 1, 8544), (8580, 8580, 1, 8579),
     (9424, 9449, 1, 9398), (11312, 11359, 1, 11264), (11361, 11361, 1, 11360), (11365, 11365, 1, 570),
     (11366, 11366, 1, 574), (11368, 11372, 2, 11367), (11379, 11379, 1, 11378), (11382, 11382, 1, 11381),
     (11393, 11491, 2, 11392), (11500, 11502, 2, 11499), (11507, 11507, 1, 11506), (11520, 11557, 1, 4256),
     (11559, 11559, 1, 4295), (11565, 11565, 1, 4301), (42561, 42605, 2, 42560), (42625, 42651, 2, 42624),
     (42787, 42799, 2, 42786), (42803, 42863, 2, 42802), (42874, 42876, 2, 42873), (42879, 42887, 2, 42878),
     (42892, 42892, 1, 42891), (42897, 42899, 2, 42896), (42900, 42900, 1, 42948), (42903, 42921, 2, 42902),
     (42933, 42947, 2, 42932), (42952, 42954, 2, 42951), (42961, 42961, 1, 42960), (42967, 42969, 2, 42966),
     (42998, 42998, 1, 42997), (43859, 43859, 1, 42931), (43888, 43967, 1, 5024), (65345, 65370, 1, 65313),
     (66600, 66639, 1, 66560), (66776, 66811, 1, 66736), (66967, 66977, 1, 66928), (66979, 66993, 1, 66940),
     (66995, 67001, 1, 66956), (67003, 67004, 1, 66964), (68800, 68850, 1, 68736), (71872, 71903, 1, 71840),
     (93792, 93823, 1, 93760), (125218, 125251, 1, 125184)]"

text \<open>The code points whose upper case is more than one code point.\<close>

definition upper_special :: "(nat \<times> ustr) list" where
  "upper_special =
    [(223, [83, 83]), (329, [700, 78]), (496, [74, 780]), (912, [921, 776, 769]),
     (944, [933, 776, 769]), (1415, [1333, 1362]), (7830, [72, 817]), (7831, [84, 776]),
     (7832, [87, 778]), (7833, [89, 778]), (7834, [65, 702]), (8016, [933, 787]),
     (8018, [933, 787, 768]), (8020, [933, 787, 769]), (8022, [933, 787, 834]), (8064, [7944, 921]),
     (8065, [7945, 921]), (8066, [7946, 921]), (8067, [7947, 921]), (8068, [7948, 921]),
     (8069, [7949, 921]), (8070, [7950, 921]), (8071, [7951, 921]), (8072, [7944, 921]),
     (8073, [7945, 921]), (8074, [7946, 921]), (8075, [7947, 921]), (8076, [7948, 921]),
     (8077, [7949, 921]), (8078, [7950, 921]), (8079, [7951, 921]), (8080, [7976, 921]),
     (8081, [7977, 921]), (8082, [7978, 921]), (8083, [7979, 921]), (8084, [7980, 921]),
     (8085, [7981, 921]), (8086, [7982, 921]), (8087, [7983, 921]), (8088, [7976, 921]),
     (8089, [7977, 921]), (8090, [7978, 921]), (8091, [7979, 921]), (8092, [7980, 921]),
     (8093, [7981, 921]), (8094, [7982, 921]), (8095, [7983, 921]), (8096, [8040, 921]),
     (8097, [8041, 921]), (8098, [8042, 921]), (8099, [8043, 921]), (8100, [8044, 921]),
     (8101, [8045, 921]), (8102, [8046, 921]), (8103, [8047, 921]), (8104, [8040, 921]),
     (8105, [8041, 921]), (8106, [8042, 921]), (8107, [8043, 921]), (8108, [8044, 921]),
     (8109, [8045, 921]), (8110, [8046, 921]), (8111, [8047, 921]), (8114, [8122, 921]),
     (8115, [913, 921]), (8116, [902, 921]), (8118, [913, 834]), (8119, [913, 834, 921]),
     (8124, [913, 921]), (8130, [8138, 921]), (8131, [919, 921]), (8132, [905, 921]),
     (8134, [919, 834]), (8135, [919, 834, 921]), (8140, [919, 921]), (8146, [921, 776, 768]),
     (8147, [921, 776, 769]), (8150, [921, 834]), (8151, [921, 776, 834]), (8162, [933, 776, 768]),
     (8163, [933, 776, 769]), (8164, [929, 787]), (8166, [933, 834]), (8167, [933, 776, 834]),
     (8178, [8186, 921]), (8179, [937, 921]), (8180, [911, 921]), (8182, [937, 834]),
     (8183, [937, 834, 921]), (8188, [937, 921]), (64256, [70, 70]), (64257, [70, 73]),
     (64258, [70, 76]), (64259, [70, 70, 73]), (64260, [70, 70, 76]), (64261, [83, 84]),
     (64262, [83, 84]), (64275, [1348, 1350]), (64276, [1348, 1333]), (64277, [1348, 1339]),
     (64278, [1358, 1350]), (64279, [1348, 1341])]"

text \<open>
  The lower case of the capital sigma (931) depends on its place in the word. The two
  properties that decide it: the code points that are case-ignorable, and those that are
  cased and not case-ignorable.
\<close>

definition ignorable_ranges :: "(nat \<times> nat) list" where
  "ignorable_ranges =
    [(39, 39), (46, 46), (58, 58), (94, 94), (96, 96), (168, 168),
     (173, 173), (175, 175), (180, 180), (183, 184), (688, 879), (884, 885),
     (890, 890), (900, 901), (903, 903), (1155, 1161), (1369, 1369), (1375, 1375),
     (1425, 1469), (1471, 1471), (1473, 1474), (1476, 1477), (1479, 1479), (1524, 1524),
     (1536, 1541), (1552, 1562), (1564, 1564), (1600, 1600), (1611, 1631), (1648, 1648),
     (1750, 1757), (1759, 1768), (1770, 1773), (1807, 1807), (1809, 1809), (1840, 1866),
     (1958, 1968), (2027, 2037), (2042, 2042), (2045, 2045), (2070, 2093), (2137, 2139),
     (2184, 2184), (2192, 2193), (2200, 2207), (2249, 2306), (2362, 2362), (2364, 2364),
     (2369, 2376), (2381, 2381), (2385, 2391), (2402, 2403), (2417, 2417), (2433, 2433),
     (2492, 2492), (2497, 2500), (2509, 2509), (2530, 2531), (2558, 2558), (2561, 2562),
     (2620, 2620), (2625, 2626), (2631, 2632), (2635, 2637), (2641, 2641), (2672, 2673),
     (2677, 2677), (2689, 2690), (2748, 2748), (2753, 2757), (2759, 2760), (2765, 2765),
     (2786, 2787), (2810, 2815), (2817, 2817), (2876, 2876), (2879, 2879), (2881, 2884),
     (2893, 2893), (2901, 2902), (2914, 2915), (2946, 2946), (3008, 3008), (3021, 3021),
     (3072, 3072), (3076, 3076), (3132, 3132), (3134, 3136), (3142, 3144), (3146, 3149),
     (3157, 3158), (3170, 3171), (3201, 3201), (3260, 3260), (3263, 3263), (3270, 3270),
     (3276, 3277), (3298, 3299), (3328, 3329), (3387, 3388), (3393, 3396), (3405, 3405),
     (3426, 3427), (3457, 3457), (3530, 3530), (3538, 3540), (3542, 3542), (3633, 3633),
     (3636, 3642), (3654, 3662), (3761, 3761), (3764, 3772), (3782, 3782), (3784, 3789),
     (3864, 3865), (3893, 3893), (3895, 3895), (3897, 3897), (3953, 3966), (3968, 3972),
     (3974, 3975), (3981, 3991), (3993, 4028), (4038, 4038), (4141, 4144), (4146, 4151),
     (4153, 4154), (4157, 4158), (4184, 4185), (4190, 4192), (4209, 4212), (4226, 4226),
     (4229, 4230), (4237, 4237), (4253, 4253), (4348, 4348), (4957, 4959), (5906, 5908),
     (5938, 5939), (5970, 5971), (6002, 6003), (6068, 6069), (6071, 6077), (6086, 6086),
     (6089, 6099), (6103, 6103), (6109, 6109), (6155, 6159), (6211, 6211), (6277, 6278),
     (6313, 6313), (6432, 6434), (6439, 6440), (6450, 6450), (6457, 6459), (6679, 6680),
     (6683, 6683), (6742, 6742), (6744, 6750), (6752, 6752), (6754, 6754), (6757, 6764),
     (6771, 6780), (6783, 6783), (6823, 6823), (6832, 6862), (6912, 6915), (6964, 6964),
     (6966, 6970), (6972, 6972), (6978, 6978), (7019, 7027), (7040, 7041), (7074, 7077),
     (7080, 7081), (7083, 7085), (7142, 7142), (7144, 7145), (7149, 7149), (7151, 7153),
     (7212, 7219), (7222, 7223), (7288, 7293), (7376, 7378), (7380, 7392), (7394, 7400),
     (7405, 7405), (7412, 7412), (7416, 7417), (7468, 7530), (7544, 7544), (7579, 7679),
     (8125, 8125), (8127, 8129), (8141, 8143), (8157, 8159), (8173, 8175), (8189, 8190),
     (8203, 8207), (8216, 8217), (8228, 8228), (8231, 8231), (8234, 8238), (8288, 8292),
     (8294, 8303), (8305, 8305), (8319, 8319), (8336, 8348), (8400, 8432), (11388, 11389),
     (11503, 11505), (11631, 11631), (11647, 11647), (11744, 11775), (11823, 11823), (12293, 12293),
     (12330, 12333), (12337, 12341), (12347, 12347), (12441, 12446), (12540, 12542), (40981, 40981),
     (42232, 42237), (42508, 42508), (42607, 42610), (42612, 42621), (42623, 42623), (42652, 42655),
     (42736, 42737), (42752, 42785), (42864, 42864), (42888, 42890), (42994, 42996), (43000, 43001),
     (43010, 43010), (43014, 43014), (43019, 43019), (43045, 43046), (43052, 43052), (43204, 43205),
     (43232, 43249), (43263, 43263), (43302, 43309), (43335, 43345), (43392, 43394), (43443, 43443),
     (43446, 43449), (43452, 43453), (43471, 43471), (43493, 43494), (43561, 43566), (43569, 43570),
     (43573, 43574), (43587, 43587), (43596, 43596), (43632, 43632), (43644, 43644), (43696, 43696),
     (43698, 43700), (43703, 43704), (43710, 43711), (43713, 43713), (43741, 43741), (43756, 43757),
     (43763, 43764), (43766, 43766), (43867, 43871), (43881, 43883), (44005, 44005), (44008, 44008),
     (44013, 44013), (64286, 64286), (64434, 64450), (65024, 65039), (65043, 65043), (65056, 65071),
     (65106, 65106), (65109, 65109), (65279, 65279), (65287, 65287), (65294, 65294), (65306, 65306),
     (65342, 65342), (65344, 65344), (65392, 65392), (65438, 65439), (65507, 65507), (65529, 65531),
     (66045, 66045), (66272, 66272), (66422, 66426), (67456, 67461), (67463, 67504), (67506, 67514),
     (68097, 68099), (68101, 68102), (68108, 68111), (68152, 68154), (68159, 68159), (68325, 68326),
     (68900, 68903), (69291, 69292), (69446, 69456), (69506, 69509), (69633, 69633), (69688, 69702),
     (69744, 69744), (69747, 69748), (69759, 69761), (69811, 69814), (69817, 69818), (69821, 69821),
     (69826, 69826), (69837, 69837), (69888, 69890), (69927, 69931), (69933, 69940), (70003, 70003),
     (70016, 70017), (70070, 70078), (70089, 70092), (70095, 70095), (70191, 70193), (70196, 70196),
     (70198, 70199), (70206, 70206), (70367, 70367), (70371, 70378), (70400, 70401), (70459, 70460),
     (70464, 70464), (70502, 70508), (70512, 70516), (70712, 70719), (70722, 70724), (70726, 70726),
     (70750, 70750), (70835, 70840), (70842, 70842), (70847, 70848), (70850, 70851), (71090, 71093),
     (71100, 71101), (71103, 71104), (71132, 71133), (71219, 71226), (71229, 71229), (71231, 71232),
     (71339, 71339), (71341, 71341), (71344, 71349), (71351, 71351), (71453, 71455), (71458, 71461),
     (71463, 71467), (71727, 71735), (71737, 71738), (71995, 71996), (71998, 71998), (72003, 72003),
     (72148, 72151), (72154, 72155), (72160, 72160), (72193, 72202), (72243, 72248), (72251, 72254),
     (72263, 72263), (72273, 72278), (72281, 72283), (72330, 72342), (72344, 72345), (72752, 72758),
     (72760, 72765), (72767, 72767), (72850, 72871), (72874, 72880), (72882, 72883), (72885, 72886),
     (73009, 73014), (73018, 73018), (73020, 73021), (73023, 73029), (73031, 73031), (73104, 73105),
     (73109, 73109), (73111, 73111), (73459, 73460), (78896, 78904), (92912, 92916), (92976, 92982),
     (92992, 92995), (94031, 94031), (94095, 94111), (94176, 94177), (94179, 94180), (110576, 110579),
     (110581, 110587), (110589, 110590), (113821, 113822), (113824, 113827), (118528, 118573), (118576, 118598),
     (119143, 119145), (119155, 119170), (119173, 119179), (119210, 119213), (119362, 119364), (121344, 121398),
     (121403, 121452), (121461, 121461), (121476, 121476), (121499, 121503), (121505, 121519), (122880, 122886),
     (122888, 122904), (122907, 122913), (122915, 122916), (122918, 122922), (123184, 123197), (123566, 123566),
     (123628, 123631), (125136, 125142), (125252, 125259), (127995, 127999), (917505, 917505), (917536, 917631),
     (917760, 917999)]"

definition cased_ranges :: "(nat \<times> nat) list" where
  "cased_ranges =
    [(65, 90), (97, 122), (170, 170), (181, 181), (186, 186), (192, 214),
     (216, 246), (248, 442), (444, 447), (452, 659), (661, 687), (880, 883),
     (886, 887), (891, 893), (895, 895), (902, 902), (904, 906), (908, 908),
     (910, 929), (931, 1013), (1015, 1153), (1162, 1327), (1329, 1366), (1376, 1416),
     (4256, 4293), (4295, 4295), (4301, 4301), (4304, 4346), (4349, 4351), (5024, 5109),
     (5112, 5117), (7296, 7304), (7312, 7354), (7357, 7359), (7424, 7467), (7531, 7543),
     (7545, 7578), (7680, 7957), (7960, 7965), (7968, 8005), (8008, 8013), (8016, 8023),
     (8025, 8025), (8027, 8027), (8029, 8029), (8031, 8061), (8064, 8116), (8118, 8124),
     (8126, 8126), (8130, 8132), (8134, 8140), (8144, 8147), (8150, 8155), (8160, 8172),
     (8178, 8180), (8182, 8188), (8450, 8450), (8455, 8455), (8458, 8467), (8469, 8469),
     (8473, 8477), (8484, 8484), (8486, 8486), (8488, 8488), (8490, 8493), (8495, 8500),
     (8505, 8505), (8508, 8511), (8517, 8521), (8526, 8526), (8544, 8575), (8579, 8580),
     (9398, 9449), (11264, 11387), (11390, 11492), (11499, 11502), (11506, 11507), (11520, 11557),
     (11559, 11559), (11565, 11565), (42560, 42605), (42624, 42651), (42786, 42863), (42865, 42887),
     (42891, 42894), (42896, 42954), (42960, 42961), (42963, 42963), (42965, 42969), (42997, 42998),
     (43002, 43002), (43824, 43866), (43872, 43880), (43888, 43967), (64256, 64262), (64275, 64279),
     (65313, 65338), (65345, 65370), (66560, 66639), (66736, 66771), (66776, 66811), (66928, 66938),
     (66940, 66954), (66956, 66962), (66964, 66965), (66967, 66977), (66979, 66993), (66995, 67001),
     (67003, 67004), (68736, 68786), (68800, 68850), (71840, 71903), (93760, 93823), (119808, 119892),
     (119894, 119964), (119966, 119967), (119970, 119970), (119973, 119974), (119977, 119980), (119982, 119993),
     (119995, 119995), (119997, 120003), (120005, 120069), (120071, 120074), (120077, 120084), (120086, 120092),
     (120094, 120121), (120123, 120126), (120128, 120132), (120134, 120134), (120138, 120144), (120146, 120485),
     (120488, 120512), (120514, 120538), (120540, 120570), (120572, 120596), (120598, 120628), (120630, 120654),
     (120656, 120686), (120688, 120712), (120714, 120744), (120746, 120770), (120772, 120779), (122624, 122633),
     (122635, 122654), (125184, 125251), (127280, 127305), (127312, 127337), (127344, 127369)]"

definition case_ignorable :: "nat \<Rightarrow> bool" where
  "case_ignorable c = in_ranges ignorable_ranges c"

definition cased :: "nat \<Rightarrow> bool" where
  "cased c = in_ranges cased_ranges c"

text \<open>
  A capital sigma is final when the nearest code point before it that is not
  case-ignorable is cased, and the nearest one after it that is not case-ignorable is
  not cased or does not exist. \<open>before\<close> is the text before the sigma, nearest first.
\<close>

definition final_sigma :: "ustr \<Rightarrow> ustr \<Rightarrow> bool" where
  "final_sigma before rest =
     ((case dropWhile case_ignorable before of [] \<Rightarrow> False | c # _ \<Rightarrow> cased c)
      \<and> (case dropWhile case_ignorable rest of [] \<Rightarrow> True | c # _ \<Rightarrow> \<not> cased c))"

fun lower_from :: "ustr \<Rightarrow> ustr \<Rightarrow> ustr" where
  "lower_from before [] = []"
| "lower_from before (c # rest) =
     (if c = 931 then [if final_sigma before rest then 962 else 963]
      else if c = 304 then [105, 775]
      else [map_cp lower_rules c])
     @ lower_from (c # before) rest"

definition lower :: "ustr \<Rightarrow> ustr" where
  "lower s = lower_from [] s"

definition upper_cp :: "nat \<Rightarrow> ustr" where
  "upper_cp c = (case map_of upper_special c of Some u \<Rightarrow> u | None \<Rightarrow> [map_cp upper_rules c])"

definition upper :: "ustr \<Rightarrow> ustr" where
  "upper s = concat (map upper_cp s)"

text \<open>\<open>'_'.join([a, b])\<close>: the two strings with an underscore (95) between them.\<close>

definition join_us :: "ustr \<Rightarrow> ustr \<Rightarrow> ustr" where
  "join_us a b = a @ [95] @ b"

section \<open>Floats and errors\<close>

text \<open>
  An element of a numpy array of floats is a finite number, taken as a real, or one of
  \<open>inf\<close>, \<open>-inf\<close> and \<open>nan\<close>. A factor and a wavelength are finite Python floats; the real
  0 stands for the float \<open>0.0\<close>.
\<close>

datatype npfloat = Fin real | PInf | NInf | NaN

text \<open>
  An element divided by a float. numpy does not raise on a division by zero: a positive
  number gives \<open>inf\<close>, a negative one \<open>-inf\<close> and zero gives \<open>nan\<close>.
\<close>

fun np_div :: "npfloat \<Rightarrow> real \<Rightarrow> npfloat" where
  "np_div (Fin v) f =
     (if f = 0 then (if 0 < v then PInf else if v < 0 then NInf else NaN) else Fin (v / f))"
| "np_div PInf f = (if f < 0 then NInf else PInf)"
| "np_div NInf f = (if f < 0 then PInf else NInf)"
| "np_div NaN f = NaN"

fun np_sub :: "npfloat \<Rightarrow> npfloat \<Rightarrow> npfloat" where
  "np_sub NaN b = NaN"
| "np_sub a NaN = NaN"
| "np_sub (Fin a) (Fin b) = Fin (a - b)"
| "np_sub (Fin a) PInf = NInf"
| "np_sub (Fin a) NInf = PInf"
| "np_sub PInf PInf = NaN"
| "np_sub PInf b = PInf"
| "np_sub NInf NInf = NaN"
| "np_sub NInf b = NInf"

text \<open>\<open>a > b\<close> on floats: false as soon as one of them is \<open>nan\<close>.\<close>

fun np_gt :: "npfloat \<Rightarrow> npfloat \<Rightarrow> bool" where
  "np_gt NaN b = False"
| "np_gt a NaN = False"
| "np_gt (Fin a) (Fin b) = (b < a)"
| "np_gt (Fin a) PInf = False"
| "np_gt (Fin a) NInf = True"
| "np_gt PInf PInf = False"
| "np_gt PInf b = True"
| "np_gt NInf b = False"

text \<open>
  \<open>max((a, b))\<close>: Python keeps the first element unless the second is greater than it.
\<close>

definition py_max :: "npfloat \<Rightarrow> npfloat \<Rightarrow> npfloat" where
  "py_max a b = (if np_gt b a then b else a)"

text \<open>
  The exceptions the methods can raise. \<open>ValueError u ks\<close> carries the rejected string
  and the keys that the message prints as \<open>set(self.units.keys())\<close>.
\<close>

datatype pyerr =
    KeyError ustr
  | ValueError ustr "ustr list"
  | TypeError
  | ZeroDivisionError
  | IndexError

section \<open>The class attributes of OpticalPhase\<close>

definition u_m :: ustr where "u_m = asc ''m''"
definition u_mm :: ustr where "u_mm = asc ''mm''"
definition u_um :: ustr where "u_um = 956 # asc ''m''"
definition u_nm :: ustr where "u_nm = asc ''nm''"
definition u_AA :: ustr where "u_AA = [197]"
definition u_lam :: ustr where "u_lam = [955]"
definition u_px :: ustr where "u_px = asc ''px''"

definition canonical :: "ustr list" where
  "canonical = [u_m, u_mm, u_um, u_nm, u_AA, u_lam, u_px]"

definition units :: "(ustr \<times> ustr) list" where
  "units =
    [(asc ''m'', u_m),
     (asc ''meter'', u_m),
     (asc ''mm'', u_mm),
     (asc ''millimeter'', u_mm),
     (956 # asc ''m'', u_um),
     (asc ''um'', u_um),
     (asc ''micron'', u_um),
     (asc ''micrometer'', u_um),
     (asc ''nm'', u_nm),
     (asc ''nanometer'', u_nm),
     ([197], u_AA),
     (asc ''aa'', u_AA),
     (asc ''angstrom'', u_AA),
     ([955], u_lam),
     (asc ''waves'', u_lam),
     (asc ''lambda'', u_lam),
     (asc ''px'', u_px),
     (asc ''pixel'', u_px)]"

definition unit_scales :: "(ustr \<times> real) list" where
  "unit_scales =
    [(u_m, 1),
     (u_mm, 1 / 10 ^ 3),
     (u_um, 1 / 10 ^ 6),
     (u_nm, 1 / 10 ^ 9),
     (u_AA, 1 / 10 ^ 10)]"

text \<open>
  The entries of \<open>unit_changes\<close> are lambdas of one argument, called with
  \<open>self.wavelength\<close>, which is a float or \<open>None\<close>. There are four shapes:
  \<open>lambda x: c\<close>, \<open>lambda x: c * x\<close>, \<open>lambda x: c / x\<close> and \<open>lambda x: x\<close>. A product or a
  quotient with \<open>None\<close> raises TypeError, a float division by zero raises
  ZeroDivisionError, and \<open>lambda x: x\<close> hands \<open>None\<close> back.
\<close>

type_synonym factor_fn = "real option \<Rightarrow> pyerr + real option"

definition f_const :: "real \<Rightarrow> factor_fn" where
  "f_const c = (\<lambda>w. Inr (Some c))"

definition f_times :: "real \<Rightarrow> factor_fn" where
  "f_times c = (\<lambda>w. case w of None \<Rightarrow> Inl TypeError | Some v \<Rightarrow> Inr (Some (c * v)))"

definition f_over :: "real \<Rightarrow> factor_fn" where
  "f_over c =
     (\<lambda>w. case w of None \<Rightarrow> Inl TypeError
          | Some v \<Rightarrow> if v = 0 then Inl ZeroDivisionError else Inr (Some (c / v)))"

definition f_ident :: factor_fn where
  "f_ident = (\<lambda>w. Inr w)"

definition unit_changes :: "(ustr \<times> factor_fn) list" where
  "unit_changes =
    [(join_us u_m u_m, f_const 1),
     (join_us u_m u_mm, f_const (1 / 10 ^ 3)),
     (join_us u_m u_um, f_const (1 / 10 ^ 6)),
     (join_us u_m u_nm, f_const (1 / 10 ^ 9)),
     (join_us u_m u_AA, f_const (1 / 10 ^ 10)),
     (join_us u_m u_lam, f_times (1 / 10 ^ 6)),
     (join_us u_mm u_mm, f_const 1),
     (join_us u_mm u_m, f_const (10 ^ 3)),
     (join_us u_mm u_um, f_const (1 / 10 ^ 3)),
     (join_us u_mm u_nm, f_const (1 / 10 ^ 6)),
     (join_us u_mm u_AA, f_const (1 / 10 ^ 7)),
     (join_us u_mm u_lam, f_times (1 / 10 ^ 3)),
     (join_us u_um u_um, f_const 1),
     (join_us u_um u_m, f_const (10 ^ 6)),
     (join_us u_um u_mm, f_const (10 ^ 3)),
     (join_us u_um u_nm, f_const (1 / 10 ^ 3)),
     (join_us u_um u_AA, f_const (1 / 10 ^ 4)),
     (join_us u_um u_lam, f_times 1),
     (join_us u_nm u_nm, f_const 1),
     (join_us u_nm u_m, f_const (10 ^ 9)),
     (join_us u_nm u_mm, f_const (10 ^ 6)),
     (join_us u_nm u_um, f_const (10 ^ 3)),
     (join_us u_nm u_AA, f_const (1 / 10)),
     (join_us u_nm u_lam, f_times (10 ^ 3)),
     (join_us u_AA u_AA, f_const 1),
     (join_us u_AA u_m, f_const (10 ^ 10)),
     (join_us u_AA u_mm, f_const (10 ^ 7)),
     (join_us u_AA u_um, f_const (10 ^ 4)),
     (join_us u_AA u_nm, f_const 10),
     (join_us u_AA u_lam, f_times (10 ^ 4)),
     (join_us u_lam u_lam, f_const 1),
     (join_us u_lam u_m, f_over (10 ^ 6)),
     (join_us u_lam u_mm, f_over (10 ^ 3)),
     (join_us u_lam u_um, f_ident),
     (join_us u_lam u_nm, f_over (1 / 10 ^ 3)),
     (join_us u_lam u_AA, f_over (1 / 10 ^ 4)),
     (join_us u_px u_px, f_const 1),
     (join_us u_px u_m, f_const 1),
     (join_us u_px u_mm, f_const 1),
     (join_us u_px u_um, f_const 1),
     (join_us u_px u_nm, f_const 1),
     (join_us u_px u_AA, f_const 1),
     (join_us u_px u_lam, f_const 1)]"

text \<open>Subscription of a dict: the value, or KeyError with the key.\<close>

definition subscript :: "(ustr \<times> 'v) list \<Rightarrow> ustr \<Rightarrow> pyerr + 'v" where
  "subscript d k = (case map_of d k of None \<Rightarrow> Inl (KeyError k) | Some v \<Rightarrow> Inr v)"

definition keys :: "(ustr \<times> 'v) list \<Rightarrow> ustr list" where
  "keys d = map fst d"

section \<open>The entity\<close>

text \<open>
  Modelled from the spec: the base class \<open>BasicData\<close> (the spec's Measurement Surface)
  is not among the sources. The spec gives it the two axes, the data grid under the name
  \<open>phase\<close>, the three labels and the unit fields \<open>xyunit\<close> and \<open>zunit\<close>, set at
  construction from the arguments of the same names, and a shape query on the grid.
  \<open>wavelength\<close> is set by \<open>OpticalPhase.__init__\<close>; the attributes \<open>_phase_unit\<close> and
  \<open>_spatial_unit\<close> do not exist until a setter creates them.
\<close>

record entity =
  x_axis :: "npfloat list"
  y_axis :: "npfloat list"
  phase :: "npfloat list list"
  xlabel :: ustr
  ylabel :: ustr
  zlabel :: ustr
  xyunit :: ustr
  zunit :: ustr
  wavelength :: "real option"
  priv_phase_unit :: "ustr option"
  priv_spatial_unit :: "ustr option"

definition basicdata_init ::
  "npfloat list \<Rightarrow> npfloat list \<Rightarrow> npfloat list list \<Rightarrow> ustr \<Rightarrow> ustr \<Rightarrow> ustr \<Rightarrow> ustr \<Rightarrow> ustr
     \<Rightarrow> entity" where
  "basicdata_init x y dat xl yl zl xyu zu =
     \<lparr>x_axis = x, y_axis = y, phase = dat, xlabel = xl, ylabel = yl, zlabel = zl,
      xyunit = xyu, zunit = zu, wavelength = None,
      priv_phase_unit = None, priv_spatial_unit = None\<rparr>"

definition shape :: "entity \<Rightarrow> nat \<times> nat" where
  "shape e = (length (phase e), (case phase e of [] \<Rightarrow> 0 | r # _ \<Rightarrow> length r))"

definition init ::
  "npfloat list \<Rightarrow> npfloat list \<Rightarrow> npfloat list list \<Rightarrow> ustr \<Rightarrow> ustr \<Rightarrow> ustr \<Rightarrow> ustr \<Rightarrow> ustr
     \<Rightarrow> real option \<Rightarrow> entity" where
  "init x y ph xl yl zl spatial_unit_arg phase_unit_arg wl =
     (basicdata_init x y ph xl yl zl spatial_unit_arg phase_unit_arg)\<lparr>wavelength := wl\<rparr>"

text \<open>The constructor with its defaults for the labels and the units.\<close>

definition init_default ::
  "npfloat list \<Rightarrow> npfloat list \<Rightarrow> npfloat list list \<Rightarrow> real option \<Rightarrow> entity" where
  "init_default x y ph wl = init x y ph (asc ''x'') (asc ''y'') (asc ''z'') u_mm u_nm wl"

definition phase_unit :: "entity \<Rightarrow> ustr" where
  "phase_unit e = xyunit e"

definition spatial_unit :: "entity \<Rightarrow> ustr" where
  "spatial_unit e = zunit e"

text \<open>
  The setters. A setter that raises has written nothing, so the error comes without a
  state.
\<close>

definition set_phase_unit :: "entity \<Rightarrow> ustr \<Rightarrow> pyerr + entity" where
  "set_phase_unit e unit =
     (let u = lower unit in
      if u = [229] then Inr (e\<lparr>priv_phase_unit := Some (upper u)\<rparr>)
      else (case map_of units u of
              None \<Rightarrow> Inl (ValueError u (keys units))
            | Some c \<Rightarrow> Inr (e\<lparr>priv_phase_unit := Some c\<rparr>)))"

definition set_spatial_unit :: "entity \<Rightarrow> ustr \<Rightarrow> pyerr + entity" where
  "set_spatial_unit e unit =
     (let u = lower unit in
      case map_of units u of
        None \<Rightarrow> Inl (ValueError u (keys units))
      | Some c \<Rightarrow> Inr (e\<lparr>priv_spatial_unit := Some c\<rparr>))"

section \<open>Diameters\<close>

text \<open>\<open>a[-1]\<close> and \<open>a[0]\<close> on a numpy array: IndexError when the array is empty.\<close>

definition idx_last :: "npfloat list \<Rightarrow> pyerr + npfloat" where
  "idx_last a = (if a = [] then Inl IndexError else Inr (last a))"

definition idx_first :: "npfloat list \<Rightarrow> pyerr + npfloat" where
  "idx_first a = (case a of [] \<Rightarrow> Inl IndexError | v # _ \<Rightarrow> Inr v)"

definition diameter_x :: "entity \<Rightarrow> pyerr + npfloat" where
  "diameter_x e =
     (case idx_last (x_axis e) of Inl err \<Rightarrow> Inl err
      | Inr b \<Rightarrow> (case idx_first (x_axis e) of Inl err \<Rightarrow> Inl err | Inr a \<Rightarrow> Inr (np_sub b a)))"

definition diameter_y :: "entity \<Rightarrow> pyerr + npfloat" where
  "diameter_y e =
     (case idx_last (y_axis e) of Inl err \<Rightarrow> Inl err
      | Inr b \<Rightarrow> (case idx_first (x_axis e) of Inl err \<Rightarrow> Inl err | Inr a \<Rightarrow> Inr (np_sub b a)))"

definition diameter :: "entity \<Rightarrow> pyerr + npfloat" where
  "diameter e =
     (case diameter_x e of Inl err \<Rightarrow> Inl err
      | Inr dx \<Rightarrow> (case diameter_y e of Inl err \<Rightarrow> Inl err | Inr dy \<Rightarrow> Inr (py_max dx dy)))"

definition semidiameter :: "entity \<Rightarrow> pyerr + npfloat" where
  "semidiameter e = (case diameter e of Inl err \<Rightarrow> Inl err | Inr d \<Rightarrow> Inr (np_div d 2))"

section \<open>Changing units\<close>

text \<open>
  An array divided by the factor: TypeError when the factor is \<open>None\<close>, the elementwise
  quotient otherwise, also when the factor is zero.
\<close>

definition div_axis :: "npfloat list \<Rightarrow> real option \<Rightarrow> pyerr + npfloat list" where
  "div_axis a fctr =
     (case fctr of None \<Rightarrow> Inl TypeError | Some f \<Rightarrow> Inr (map (\<lambda>v. np_div v f) a))"

definition div_grid :: "npfloat list list \<Rightarrow> real option \<Rightarrow> pyerr + npfloat list list" where
  "div_grid g fctr =
     (case fctr of None \<Rightarrow> Inl TypeError | Some f \<Rightarrow> Inr (map (map (\<lambda>v. np_div v f)) g))"

text \<open>\<open>e.arange(n, dtype=config.precision)\<close>: the floats \<open>0, 1, ..., n - 1\<close>.\<close>

definition arange :: "nat \<Rightarrow> npfloat list" where
  "arange n = map (\<lambda>i. Fin (real i)) [0..<n]"

text \<open>
  What a call hands back: the entity itself, the new phase grid, or the pair of new
  axes. A method returns its outcome together with the entity as the call leaves it,
  also when it raises.
\<close>

datatype ret = RetSelf | RetPhase "npfloat list list" | RetAxes "npfloat list" "npfloat list"

definition factor :: "ustr \<Rightarrow> ustr \<Rightarrow> real option \<Rightarrow> pyerr + real option" where
  "factor src tgt wl =
     (case subscript unit_changes (join_us src tgt) of Inl err \<Rightarrow> Inl err | Inr f \<Rightarrow> f wl)"

definition change_phase_unit :: "entity \<Rightarrow> ustr \<Rightarrow> bool \<Rightarrow> (pyerr + ret) \<times> entity" where
  "change_phase_unit e to inplace =
     (case subscript units to of Inl err \<Rightarrow> (Inl err, e)
      | Inr tgt \<Rightarrow>
     (case factor (phase_unit e) tgt (wavelength e) of Inl err \<Rightarrow> (Inl err, e)
      | Inr fctr \<Rightarrow>
     (case div_grid (phase e) fctr of Inl err \<Rightarrow> (Inl err, e)
      | Inr new_phase \<Rightarrow>
        if inplace then
          (let e1 = e\<lparr>phase := new_phase\<rparr> in
           case set_phase_unit e1 to of Inl err \<Rightarrow> (Inl err, e1) | Inr e2 \<Rightarrow> (Inr RetSelf, e2))
        else (Inr (RetPhase new_phase), e))))"

definition new_axes :: "entity \<Rightarrow> ustr \<Rightarrow> pyerr + npfloat list \<times> npfloat list" where
  "new_axes e to =
     (if lower to \<noteq> asc ''px'' then
        (case subscript units to of Inl err \<Rightarrow> Inl err
         | Inr tgt \<Rightarrow>
        (case factor (spatial_unit e) tgt (wavelength e) of Inl err \<Rightarrow> Inl err
         | Inr fctr \<Rightarrow>
        (case div_axis (x_axis e) fctr of Inl err \<Rightarrow> Inl err
         | Inr new_ux \<Rightarrow>
        (case div_axis (y_axis e) fctr of Inl err \<Rightarrow> Inl err
         | Inr new_uy \<Rightarrow> Inr (new_ux, new_uy)))))
      else (case shape e of (sy, sx) \<Rightarrow> Inr (arange sx, arange sy)))"

definition change_spatial_unit :: "entity \<Rightarrow> ustr \<Rightarrow> bool \<Rightarrow> (pyerr + ret) \<times> entity" where
  "change_spatial_unit e to inplace =
     (case new_axes e to of Inl err \<Rightarrow> (Inl err, e)
      | Inr (new_ux, new_uy) \<Rightarrow>
        if inplace then
          (let e1 = e\<lparr>x_axis := new_ux, y_axis := new_uy\<rparr> in
           case set_spatial_unit e1 to of Inl err \<Rightarrow> (Inl err, e1) | Inr e2 \<Rightarrow> (Inr RetSelf, e2))
        else (Inr (RetAxes new_ux new_uy), e))"

section \<open>Sequences of calls\<close>

text \<open>
  The calls that write to an entity, and the entity after a call, also after one that
  raised (a caller that catches the exception goes on with that entity).
\<close>

datatype op =
    SetPhaseUnit ustr
  | SetSpatialUnit ustr
  | ChangePhaseUnit ustr bool
  | ChangeSpatialUnit ustr bool

fun step :: "entity \<Rightarrow> op \<Rightarrow> entity" where
  "step e (SetPhaseUnit u) = (case set_phase_unit e u of Inl err \<Rightarrow> e | Inr e' \<Rightarrow> e')"
| "step e (SetSpatialUnit u) = (case set_spatial_unit e u of Inl err \<Rightarrow> e | Inr e' \<Rightarrow> e')"
| "step e (ChangePhaseUnit to inplace) = snd (change_phase_unit e to inplace)"
| "step e (ChangeSpatialUnit to inplace) = snd (change_spatial_unit e to inplace)"

section \<open>Entities used as examples\<close>

definition ex_axes :: entity where
  "ex_axes = init_default [Fin 1, Fin 2, Fin 4] [Fin 0, Fin 5]
               [[Fin 0, Fin 0, Fin 0], [Fin 0, Fin 0, Fin 0]] None"

text \<open>
  \<open>OpticalPhase(x, y, phase, phase_unit='nm', wavelength=0.6328)\<close> with a grid of one
  sample; \<open>spatial_unit\<close> has its default \<open>'mm'\<close>.
\<close>

definition ex_nm :: entity where
  "ex_nm = init [Fin 0] [Fin 0] [[Fin 1]] (asc ''x'') (asc ''y'') (asc ''z'') u_mm u_nm
             (Some 0.6328)"

section \<open>Pairs of units\<close>

definition nonpixel :: "ustr list" where
  "nonpixel = [u_m, u_mm, u_um, u_nm, u_AA, u_lam]"

text \<open>
  The pairs of units on which the two factors are compared: the pairs of non-pixel units
  other than micrometers with waves, and pixels with pixels.
\<close>

definition inverse_pairs :: "(ustr \<times> ustr) list" where
  "inverse_pairs =
     [(a, b). a \<leftarrow> nonpixel, b \<leftarrow> nonpixel, (a, b) \<noteq> (u_um, u_lam) \<and> (a, b) \<noteq> (u_lam, u_um)]
     @ [(u_px, u_px)]"

text \<open>Both factors exist at wavelength \<open>w\<close> and one is the inverse of the other.\<close>

definition inverse_at :: "ustr \<Rightarrow> ustr \<Rightarrow> real \<Rightarrow> bool" where
  "inverse_at a b w =
     (case (factor a b (Some w), factor b a (Some w)) of
        (Inr (Some f), Inr (Some g)) \<Rightarrow> g \<noteq> 0 \<and> f = 1 / g
      | _ \<Rightarrow> False)"

text \<open>\<open>OpticalPhase(x, y, phase, spatial_unit='\<lambda>', phase_unit='\<lambda>')\<close>, without a wavelength.\<close>

definition ex_lam :: entity where
  "ex_lam = init [Fin 0] [Fin 0] [[Fin 1]] (asc ''x'') (asc ''y'') (asc ''z'') u_lam u_lam None"

text \<open>
  \<open>OpticalPhase(x, y, phase, spatial_unit='\<mu>m', phase_unit='\<mu>m', wavelength=0.5)\<close>: both
  units are micrometers, so either getter reads micrometers.
\<close>

definition ex_um :: entity where
  "ex_um = init [Fin 0] [Fin 0] [[Fin 1]] (asc ''x'') (asc ''y'') (asc ''z'') u_um u_um (Some 0.5)"

text \<open>
  \<open>OpticalPhase(x, y, phase, phase_unit='\<mu>m', wavelength=0.5)\<close>: the phase is given in
  micrometers and the spatial unit has its default \<open>'mm'\<close>.
\<close>

definition ex_um_mm :: entity where
  "ex_um_mm = init [Fin 0] [Fin 0] [[Fin 1]] (asc ''x'') (asc ''y'') (asc ''z'') u_mm u_um
                (Some 0.5)"

text \<open>
  An entity with a grid of three rows and two columns, both units millimeters:
  \<open>OpticalPhase(x, y, phase, spatial_unit='mm', phase_unit='mm')\<close>.
\<close>

definition ex_grid :: entity where
  "ex_grid = init [Fin 0, Fin 0.5] [Fin 0, Fin 0.5, Fin 1]
               [[Fin 1, Fin 2], [Fin 3, Fin 4], [Fin 5, Fin 6]]
               (asc ''x'') (asc ''y'') (asc ''z'') u_mm u_mm None"

text \<open>An entity whose phase \<open>[[2.0]]\<close> is in waves, at wavelength 0.5.\<close>

definition ex_waves :: entity where
  "ex_waves = init [Fin 0] [Fin 0] [[Fin 2]] (asc ''x'') (asc ''y'') (asc ''z'') u_lam u_lam
                (Some 0.5)"

text \<open>\<open>OpticalPhase(x, y, phase, spatial_unit='micron')\<close>: a unit given by an alias.\<close>

definition ex_alias :: entity where
  "ex_alias = init [Fin 0] [Fin 0] [[Fin 1]] (asc ''x'') (asc ''y'') (asc ''z'')
                (asc ''micron'') u_nm None"

text \<open>An entity in micrometers whose wavelength is \<open>0.0\<close>.\<close>

definition ex_zero :: entity where
  "ex_zero = init [Fin 0] [Fin 0] [[Fin 1, Fin 0, Fin (- 1)]] (asc ''x'') (asc ''y'') (asc ''z'')
               u_um u_um (Some 0)"

section \<open>Evaluation\<close>

lemmas unit_defs =
  u_m_def u_mm_def u_um_def u_nm_def u_AA_def u_lam_def u_px_def asc_def join_us_def

lemmas factor_defs =
  factor_def subscript_def unit_changes_def f_const_def f_times_def f_over_def f_ident_def

lemmas init_defs = init_default_def init_def basicdata_init_def

text \<open>The case mappings on the code points of the unit names.\<close>

lemma lower_cp_ascii:
  "c < 65 \<Longrightarrow> map_cp lower_rules c = c"
  "65 \<le> c \<Longrightarrow> c \<le> 90 \<Longrightarrow> map_cp lower_rules c = c + 32"
  "90 < c \<Longrightarrow> c < 192 \<Longrightarrow> map_cp lower_rules c = c"
  by (simp_all add: lower_rules_def)

lemma lower_cp_units:
  "map_cp lower_rules 197 = 229" "map_cp lower_rules 229 = 229"
  "map_cp lower_rules 955 = 955" "map_cp lower_rules 956 = 956"
  by (simp_all add: lower_rules_def)

lemma lower_from_plain:
  "931 \<notin> set s \<Longrightarrow> 304 \<notin> set s \<Longrightarrow> lower_from before s = map (map_cp lower_rules) s"
  by (induction s arbitrary: before) auto

lemma lower_plain: "931 \<notin> set s \<Longrightarrow> 304 \<notin> set s \<Longrightarrow> lower s = map (map_cp lower_rules) s"
  by (simp add: lower_def lower_from_plain)

lemmas lower_simps = lower_plain lower_cp_ascii lower_cp_units

lemma upper_a_ring: "upper [229] = [197]"
  by (simp add: upper_def upper_cp_def upper_special_def upper_rules_def)

text \<open>
  Two words of capital letters: the sigma at the end of a word becomes the final small
  sigma (962), and the capital I with dot becomes two code points.
\<close>

lemma lower_sigma:
  "lower [913, 931] = [945, 962]" "lower [931, 913] = [963, 945]"
  by (simp_all add: lower_def lower_rules_def final_sigma_def case_ignorable_def cased_def
      ignorable_ranges_def cased_ranges_def)

lemma lower_dotted_I: "lower [304, 90] = [105, 775, 122]"
  by (simp add: lower_def lower_rules_def)

text \<open>Division by a factor and by its inverse gives the element again.\<close>

lemma np_div_inverse:
  assumes "h \<noteq> 0" and "f = 1 / h"
  shows "np_div (np_div v f) h = v"
proof (cases v)
  case (Fin r)
  with assms show ?thesis by simp
next
  case PInf
  with assms show ?thesis by (simp add: divide_less_0_iff)
next
  case NInf
  with assms show ?thesis by (simp add: divide_less_0_iff)
next
  case NaN
  then show ?thesis by simp
qed

lemma py_max_Fin: "py_max (Fin a) (Fin b) = Fin (max a b)"
  by (simp add: py_max_def max_def)

section \<open>What the setters and the conversions write\<close>

lemma set_phase_unit_cases:
  "set_phase_unit e u = Inl (ValueError (lower u) (keys units))
   \<or> (\<exists>c. set_phase_unit e u = Inr (e\<lparr>priv_phase_unit := Some c\<rparr>))"
  unfolding set_phase_unit_def Let_def by (cases "map_of units (lower u)") auto

lemma set_spatial_unit_cases:
  "set_spatial_unit e u = Inl (ValueError (lower u) (keys units))
   \<or> (\<exists>c. set_spatial_unit e u = Inr (e\<lparr>priv_spatial_unit := Some c\<rparr>))"
  unfolding set_spatial_unit_def Let_def by (cases "map_of units (lower u)") auto

lemma change_phase_unit_state:
  "snd (change_phase_unit e to ip) = e
   \<or> (\<exists>g. snd (change_phase_unit e to ip) = e\<lparr>phase := g\<rparr>)
   \<or> (\<exists>g c. snd (change_phase_unit e to ip) = e\<lparr>phase := g, priv_phase_unit := Some c\<rparr>)"
proof (cases "subscript units to")
  case (Inl err)
  then show ?thesis by (simp add: change_phase_unit_def)
next
  case tgt: (Inr tgt)
  show ?thesis
  proof (cases "factor (phase_unit e) tgt (wavelength e)")
    case (Inl err)
    then show ?thesis by (simp add: change_phase_unit_def tgt)
  next
    case fctr: (Inr fctr)
    show ?thesis
    proof (cases "div_grid (phase e) fctr")
      case (Inl err)
      then show ?thesis by (simp add: change_phase_unit_def tgt fctr)
    next
      case g: (Inr g)
      show ?thesis
      proof (cases ip)
        case False
        then show ?thesis by (simp add: change_phase_unit_def tgt fctr g)
      next
        case True
        from set_phase_unit_cases [of "e\<lparr>phase := g\<rparr>" to] show ?thesis
        proof
          assume "set_phase_unit (e\<lparr>phase := g\<rparr>) to = Inl (ValueError (lower to) (keys units))"
          then have "snd (change_phase_unit e to ip) = e\<lparr>phase := g\<rparr>"
            by (simp add: change_phase_unit_def tgt fctr g True)
          then show ?thesis by blast
        next
          assume "\<exists>c. set_phase_unit (e\<lparr>phase := g\<rparr>) to
                     = Inr (e\<lparr>phase := g\<rparr>\<lparr>priv_phase_unit := Some c\<rparr>)"
          then obtain c where
            "set_phase_unit (e\<lparr>phase := g\<rparr>) to = Inr (e\<lparr>phase := g, priv_phase_unit := Some c\<rparr>)"
            by auto
          then have "snd (change_phase_unit e to ip) = e\<lparr>phase := g, priv_phase_unit := Some c\<rparr>"
            by (simp add: change_phase_unit_def tgt fctr g True)
          then show ?thesis by blast
        qed
      qed
    qed
  qed
qed

lemma change_spatial_unit_state:
  "snd (change_spatial_unit e to ip) = e
   \<or> (\<exists>a b. snd (change_spatial_unit e to ip) = e\<lparr>x_axis := a, y_axis := b\<rparr>)
   \<or> (\<exists>a b c. snd (change_spatial_unit e to ip)
                = e\<lparr>x_axis := a, y_axis := b, priv_spatial_unit := Some c\<rparr>)"
proof (cases "new_axes e to")
  case (Inl err)
  then show ?thesis by (simp add: change_spatial_unit_def)
next
  case (Inr ab)
  then obtain a b where ab: "new_axes e to = Inr (a, b)" by (cases ab) auto
  show ?thesis
  proof (cases ip)
    case False
    then show ?thesis by (simp add: change_spatial_unit_def ab)
  next
    case True
    from set_spatial_unit_cases [of "e\<lparr>x_axis := a, y_axis := b\<rparr>" to] show ?thesis
    proof
      assume "set_spatial_unit (e\<lparr>x_axis := a, y_axis := b\<rparr>) to
              = Inl (ValueError (lower to) (keys units))"
      then have "snd (change_spatial_unit e to ip) = e\<lparr>x_axis := a, y_axis := b\<rparr>"
        by (simp add: change_spatial_unit_def ab True)
      then show ?thesis by blast
    next
      assume "\<exists>c. set_spatial_unit (e\<lparr>x_axis := a, y_axis := b\<rparr>) to
                 = Inr (e\<lparr>x_axis := a, y_axis := b\<rparr>\<lparr>priv_spatial_unit := Some c\<rparr>)"
      then obtain c where "set_spatial_unit (e\<lparr>x_axis := a, y_axis := b\<rparr>) to
                 = Inr (e\<lparr>x_axis := a, y_axis := b, priv_spatial_unit := Some c\<rparr>)"
        by auto
      then have "snd (change_spatial_unit e to ip)
                 = e\<lparr>x_axis := a, y_axis := b, priv_spatial_unit := Some c\<rparr>"
        by (simp add: change_spatial_unit_def ab True)
      then show ?thesis by blast
    qed
  qed
qed

lemma step_units: "xyunit (step e p) = xyunit e \<and> zunit (step e p) = zunit e"
proof (cases p)
  case (SetPhaseUnit u)
  from set_phase_unit_cases [of e u] show ?thesis
    by (auto simp: SetPhaseUnit)
next
  case (SetSpatialUnit u)
  from set_spatial_unit_cases [of e u] show ?thesis
    by (auto simp: SetSpatialUnit)
next
  case (ChangePhaseUnit to ip)
  from change_phase_unit_state [of e to ip] show ?thesis
    by (auto simp: ChangePhaseUnit)
next
  case (ChangeSpatialUnit to ip)
  from change_spatial_unit_state [of e to ip] show ?thesis
    by (auto simp: ChangeSpatialUnit)
qed

lemma run_units: "xyunit (foldl step e ps) = xyunit e \<and> zunit (foldl step e ps) = zunit e"
proof (induction ps arbitrary: e)
  case Nil
  show ?case by simp
next
  case (Cons p ps)
  show ?case using Cons.IH [of "step e p"] step_units [of e p] by simp
qed

text \<open>
  Nothing reads the two private fields: the getters, the outcome of a conversion and the
  diameters are the same whatever these fields hold.
\<close>

lemma private_fields_unread:
  "phase_unit (e\<lparr>priv_phase_unit := p, priv_spatial_unit := q\<rparr>) = phase_unit e"
  "spatial_unit (e\<lparr>priv_phase_unit := p, priv_spatial_unit := q\<rparr>) = spatial_unit e"
  "fst (change_phase_unit (e\<lparr>priv_phase_unit := p, priv_spatial_unit := q\<rparr>) to ip)
     = fst (change_phase_unit e to ip)"
  "fst (change_spatial_unit (e\<lparr>priv_phase_unit := p, priv_spatial_unit := q\<rparr>) to ip)
     = fst (change_spatial_unit e to ip)"
  "semidiameter (e\<lparr>priv_phase_unit := p, priv_spatial_unit := q\<rparr>) = semidiameter e"
proof -
  show "phase_unit (e\<lparr>priv_phase_unit := p, priv_spatial_unit := q\<rparr>) = phase_unit e"
    by (simp add: phase_unit_def)
  show "spatial_unit (e\<lparr>priv_phase_unit := p, priv_spatial_unit := q\<rparr>) = spatial_unit e"
    by (simp add: spatial_unit_def)
  show "fst (change_phase_unit (e\<lparr>priv_phase_unit := p, priv_spatial_unit := q\<rparr>) to ip)
     = fst (change_phase_unit e to ip)"
    by (simp add: change_phase_unit_def phase_unit_def set_phase_unit_def Let_def
        split: sum.splits option.splits)
  have n: "new_axes (e\<lparr>priv_phase_unit := p, priv_spatial_unit := q\<rparr>) to = new_axes e to"
    by (simp add: new_axes_def spatial_unit_def shape_def cong: sum.case_cong)
  show "fst (change_spatial_unit (e\<lparr>priv_phase_unit := p, priv_spatial_unit := q\<rparr>) to ip)
     = fst (change_spatial_unit e to ip)"
    by (simp add: change_spatial_unit_def n set_spatial_unit_def Let_def
        split: sum.splits option.splits prod.splits)
  show "semidiameter (e\<lparr>priv_phase_unit := p, priv_spatial_unit := q\<rparr>) = semidiameter e"
    by (simp add: semidiameter_def diameter_def diameter_x_def diameter_y_def
        cong: sum.case_cong)
qed

section \<open>Diameters (C9)\<close>

text \<open>
  C9. For an entity whose two axes are not empty, \<open>diameter_x\<close> is \<open>x[-1] - x[0]\<close>,
  \<open>diameter_y\<close> is \<open>y[-1] - x[0]\<close> (the first element of the x axis, not of the y axis),
  \<open>diameter\<close> is \<open>max\<close> of the two and \<open>semidiameter\<close> is half of it. Where the three
  elements \<open>x[0]\<close>, \<open>x[-1]\<close> and \<open>y[-1]\<close> are finite, these are the difference, the maximum
  and the half of real numbers.
\<close>

theorem diameter_values:
  assumes "x_axis e \<noteq> []" and "y_axis e \<noteq> []"
  shows "diameter_x e = Inr (np_sub (last (x_axis e)) (hd (x_axis e)))
       \<and> diameter_y e = Inr (np_sub (last (y_axis e)) (hd (x_axis e)))
       \<and> diameter e
           = Inr (py_max (np_sub (last (x_axis e)) (hd (x_axis e)))
                         (np_sub (last (y_axis e)) (hd (x_axis e))))
       \<and> semidiameter e
           = Inr (np_div (py_max (np_sub (last (x_axis e)) (hd (x_axis e)))
                                 (np_sub (last (y_axis e)) (hd (x_axis e)))) 2)
       \<and> (hd (x_axis e) = Fin a \<and> last (x_axis e) = Fin b \<and> last (y_axis e) = Fin c \<longrightarrow>
            diameter_x e = Inr (Fin (b - a))
          \<and> diameter_y e = Inr (Fin (c - a))
          \<and> diameter e = Inr (Fin (max (b - a) (c - a)))
          \<and> semidiameter e = Inr (Fin (max (b - a) (c - a) / 2)))"
proof -
  from assms(1) obtain v vs where x: "x_axis e = v # vs" by (cases "x_axis e") auto
  have dx: "diameter_x e = Inr (np_sub (last (x_axis e)) (hd (x_axis e)))"
    by (simp add: diameter_x_def idx_last_def idx_first_def x)
  have dy: "diameter_y e = Inr (np_sub (last (y_axis e)) (hd (x_axis e)))"
    using assms(2) by (simp add: diameter_y_def idx_last_def idx_first_def x)
  have d: "diameter e
           = Inr (py_max (np_sub (last (x_axis e)) (hd (x_axis e)))
                         (np_sub (last (y_axis e)) (hd (x_axis e))))"
    by (simp add: diameter_def dx dy)
  have s: "semidiameter e
           = Inr (np_div (py_max (np_sub (last (x_axis e)) (hd (x_axis e)))
                                 (np_sub (last (y_axis e)) (hd (x_axis e)))) 2)"
    by (simp add: semidiameter_def d)
  have f: "diameter_x e = Inr (Fin (b - a)) \<and> diameter_y e = Inr (Fin (c - a))
          \<and> diameter e = Inr (Fin (max (b - a) (c - a)))
          \<and> semidiameter e = Inr (Fin (max (b - a) (c - a) / 2))"
    if "hd (x_axis e) = Fin a" "last (x_axis e) = Fin b" "last (y_axis e) = Fin c"
    using that by (simp add: dx dy d s py_max_Fin)
  from dx dy d s f show ?thesis by blast
qed

theorem diameter_values_witness:
  "x_axis ex_axes \<noteq> [] \<and> y_axis ex_axes \<noteq> []
   \<and> hd (x_axis ex_axes) = Fin 1 \<and> last (x_axis ex_axes) = Fin 4
   \<and> last (y_axis ex_axes) = Fin 5
   \<and> diameter_x ex_axes = Inr (Fin 3) \<and> diameter_y ex_axes = Inr (Fin 4)
   \<and> diameter ex_axes = Inr (Fin 4) \<and> semidiameter ex_axes = Inr (Fin 2)"
proof -
  have h: "x_axis ex_axes \<noteq> []" "y_axis ex_axes \<noteq> []"
    by (simp_all add: ex_axes_def init_defs)
  have v: "hd (x_axis ex_axes) = Fin 1" "last (x_axis ex_axes) = Fin 4"
    "last (y_axis ex_axes) = Fin 5"
    by (simp_all add: ex_axes_def init_defs)
  from diameter_values [OF h, of 1 4 5] v have
    "diameter_x ex_axes = Inr (Fin (4 - 1)) \<and> diameter_y ex_axes = Inr (Fin (5 - 1))
     \<and> diameter ex_axes = Inr (Fin (max (4 - 1) (5 - 1)))
     \<and> semidiameter ex_axes = Inr (Fin (max (4 - 1) (5 - 1) / 2))"
    by blast
  with h v show ?thesis by simp
qed

section \<open>The getters (C10)\<close>

text \<open>
  C10. For an entity constructed with \<open>spatial_unit = s\<close> and \<open>phase_unit = p\<close>, the getter
  \<open>phase_unit\<close> returns the field \<open>xyunit\<close>, which holds \<open>s\<close>, and the getter \<open>spatial_unit\<close>
  returns \<open>zunit\<close>, which holds \<open>p\<close>. A setter either raises or writes its own private
  field and nothing else, and after any sequence of calls of the two setters and of the
  two conversions, in place or not, both getters still return \<open>s\<close> and \<open>p\<close>.
\<close>

theorem getters_never_change:
  "phase_unit (init x y ph xl yl zl s p wl) = xyunit (init x y ph xl yl zl s p wl)
   \<and> xyunit (init x y ph xl yl zl s p wl) = s
   \<and> spatial_unit (init x y ph xl yl zl s p wl) = zunit (init x y ph xl yl zl s p wl)
   \<and> zunit (init x y ph xl yl zl s p wl) = p
   \<and> (set_phase_unit e u = Inl (ValueError (lower u) (keys units))
       \<or> (\<exists>c. set_phase_unit e u = Inr (e\<lparr>priv_phase_unit := Some c\<rparr>)))
   \<and> (set_spatial_unit e u = Inl (ValueError (lower u) (keys units))
       \<or> (\<exists>c. set_spatial_unit e u = Inr (e\<lparr>priv_spatial_unit := Some c\<rparr>)))
   \<and> phase_unit (foldl step (init x y ph xl yl zl s p wl) ps) = s
   \<and> spatial_unit (foldl step (init x y ph xl yl zl s p wl) ps) = p"
proof -
  have i: "xyunit (init x y ph xl yl zl s p wl) = s" "zunit (init x y ph xl yl zl s p wl) = p"
    by (simp_all add: init_defs)
  have r: "phase_unit (foldl step (init x y ph xl yl zl s p wl) ps) = s"
          "spatial_unit (foldl step (init x y ph xl yl zl s p wl) ps) = p"
    using run_units [of "init x y ph xl yl zl s p wl" ps]
    by (simp_all add: phase_unit_def spatial_unit_def i)
  show ?thesis
    using set_phase_unit_cases [of e u] set_spatial_unit_cases [of e u] i r
    by (simp add: phase_unit_def spatial_unit_def)
qed

theorem getters_never_change_witness:
  "phase_unit (foldl step ex_nm
      [ChangePhaseUnit (asc ''m'') True, SetPhaseUnit (asc ''micron''),
       ChangeSpatialUnit (asc ''px'') True, SetSpatialUnit (asc ''meter'')]) = u_mm
   \<and> spatial_unit (foldl step ex_nm
      [ChangePhaseUnit (asc ''m'') True, SetPhaseUnit (asc ''micron''),
       ChangeSpatialUnit (asc ''px'') True, SetSpatialUnit (asc ''meter'')]) = u_nm"
  using getters_never_change
    [of "[Fin 0]" "[Fin 0]" "[[Fin 1]]" "asc ''x''" "asc ''y''" "asc ''z''" u_mm u_nm "Some 0.6328"
        ex_nm "asc ''m''"
        "[ChangePhaseUnit (asc ''m'') True, SetPhaseUnit (asc ''micron''),
          ChangeSpatialUnit (asc ''px'') True, SetSpatialUnit (asc ''meter'')]"]
  by (simp add: ex_nm_def)

section \<open>The example conversion from nanometers to waves (C1)\<close>

text \<open>
  C1. The entity constructed with \<open>phase = [[1.0]]\<close>, \<open>phase_unit = 'nm'\<close> and
  \<open>wavelength = 0.6328\<close> is asked for its phase in waves, not in place. The getter
  \<open>phase_unit\<close> reads \<open>xyunit\<close>, which holds the spatial unit \<open>'mm'\<close>, so the factor is the
  entry \<open>mm_\<lambda>\<close>, \<open>1e-3 * 0.6328\<close>, and the call returns \<open>[[1 / (1e-3 * 0.6328)]]\<close>, which is
  not \<open>[[1 / (1e3 * 0.6328)]]\<close>.
\<close>

theorem nm_to_waves_example:
  "change_phase_unit ex_nm (asc ''waves'') False
     = (Inr (RetPhase [[Fin (1 / (0.6328 / 10 ^ 3))]]), ex_nm)
   \<and> zunit ex_nm = u_nm
   \<and> phase_unit ex_nm = u_mm
   \<and> [[Fin (1 / (0.6328 / 10 ^ 3))]] \<noteq> [[Fin (1 / (10 ^ 3 * 0.6328))]]"
  by (simp add: change_phase_unit_def ex_nm_def init_defs phase_unit_def units_def
      div_grid_def factor_defs unit_defs)

text \<open>
  When \<open>xyunit\<close> holds \<open>'nm'\<close>, which is what the getter reads, the same call divides by
  \<open>1e3 * wavelength\<close>.
\<close>

lemma nm_to_waves_when_read_as_nm:
  assumes "xyunit e = u_nm" and "wavelength e = Some w"
  shows "change_phase_unit e (asc ''waves'') False
         = (Inr (RetPhase (map (map (\<lambda>v. np_div v (10 ^ 3 * w))) (phase e))), e)"
  using assms
  by (simp add: change_phase_unit_def phase_unit_def units_def div_grid_def factor_defs unit_defs)

section \<open>The table of conversion factors (C2)\<close>

lemma factor_Some:
  "factor u_m u_m (Some w) = Inr (Some 1)"
  "factor u_m u_mm (Some w) = Inr (Some (1 / 10 ^ 3))"
  "factor u_m u_um (Some w) = Inr (Some (1 / 10 ^ 6))"
  "factor u_m u_nm (Some w) = Inr (Some (1 / 10 ^ 9))"
  "factor u_m u_AA (Some w) = Inr (Some (1 / 10 ^ 10))"
  "factor u_m u_lam (Some w) = Inr (Some (1 / 10 ^ 6 * w))"
  "factor u_mm u_mm (Some w) = Inr (Some 1)"
  "factor u_mm u_m (Some w) = Inr (Some (10 ^ 3))"
  "factor u_mm u_um (Some w) = Inr (Some (1 / 10 ^ 3))"
  "factor u_mm u_nm (Some w) = Inr (Some (1 / 10 ^ 6))"
  "factor u_mm u_AA (Some w) = Inr (Some (1 / 10 ^ 7))"
  "factor u_mm u_lam (Some w) = Inr (Some (1 / 10 ^ 3 * w))"
  "factor u_um u_um (Some w) = Inr (Some 1)"
  "factor u_um u_m (Some w) = Inr (Some (10 ^ 6))"
  "factor u_um u_mm (Some w) = Inr (Some (10 ^ 3))"
  "factor u_um u_nm (Some w) = Inr (Some (1 / 10 ^ 3))"
  "factor u_um u_AA (Some w) = Inr (Some (1 / 10 ^ 4))"
  "factor u_um u_lam (Some w) = Inr (Some (1 * w))"
  "factor u_nm u_nm (Some w) = Inr (Some 1)"
  "factor u_nm u_m (Some w) = Inr (Some (10 ^ 9))"
  "factor u_nm u_mm (Some w) = Inr (Some (10 ^ 6))"
  "factor u_nm u_um (Some w) = Inr (Some (10 ^ 3))"
  "factor u_nm u_AA (Some w) = Inr (Some (1 / 10))"
  "factor u_nm u_lam (Some w) = Inr (Some (10 ^ 3 * w))"
  "factor u_AA u_AA (Some w) = Inr (Some 1)"
  "factor u_AA u_m (Some w) = Inr (Some (10 ^ 10))"
  "factor u_AA u_mm (Some w) = Inr (Some (10 ^ 7))"
  "factor u_AA u_um (Some w) = Inr (Some (10 ^ 4))"
  "factor u_AA u_nm (Some w) = Inr (Some 10)"
  "factor u_AA u_lam (Some w) = Inr (Some (10 ^ 4 * w))"
  "factor u_lam u_lam (Some w) = Inr (Some 1)"
  "factor u_lam u_m (Some w) = (if w = 0 then Inl ZeroDivisionError else Inr (Some (10 ^ 6 / w)))"
  "factor u_lam u_mm (Some w) = (if w = 0 then Inl ZeroDivisionError else Inr (Some (10 ^ 3 / w)))"
  "factor u_lam u_um (Some w) = Inr (Some w)"
  "factor u_lam u_nm (Some w)
     = (if w = 0 then Inl ZeroDivisionError else Inr (Some (1 / 10 ^ 3 / w)))"
  "factor u_lam u_AA (Some w)
     = (if w = 0 then Inl ZeroDivisionError else Inr (Some (1 / 10 ^ 4 / w)))"
  "factor u_px u_px (Some w) = Inr (Some 1)"
  "factor u_px u_m (Some w) = Inr (Some 1)"
  "factor u_px u_mm (Some w) = Inr (Some 1)"
  "factor u_px u_um (Some w) = Inr (Some 1)"
  "factor u_px u_nm (Some w) = Inr (Some 1)"
  "factor u_px u_AA (Some w) = Inr (Some 1)"
  "factor u_px u_lam (Some w) = Inr (Some 1)"
  by (simp_all add: factor_defs unit_defs)

lemma factor_to_px:
  "factor u_m u_px w = Inl (KeyError (join_us u_m u_px))"
  "factor u_mm u_px w = Inl (KeyError (join_us u_mm u_px))"
  "factor u_um u_px w = Inl (KeyError (join_us u_um u_px))"
  "factor u_nm u_px w = Inl (KeyError (join_us u_nm u_px))"
  "factor u_AA u_px w = Inl (KeyError (join_us u_AA u_px))"
  "factor u_lam u_px w = Inl (KeyError (join_us u_lam u_px))"
  by (simp_all add: factor_defs unit_defs)


lemma inverse_pairs_list:
  "inverse_pairs =
    [(u_m, u_m), (u_m, u_mm), (u_m, u_um), (u_m, u_nm), (u_m, u_AA), (u_m, u_lam),
     (u_mm, u_m), (u_mm, u_mm), (u_mm, u_um), (u_mm, u_nm), (u_mm, u_AA), (u_mm, u_lam),
     (u_um, u_m), (u_um, u_mm), (u_um, u_um), (u_um, u_nm), (u_um, u_AA),
     (u_nm, u_m), (u_nm, u_mm), (u_nm, u_um), (u_nm, u_nm), (u_nm, u_AA), (u_nm, u_lam),
     (u_AA, u_m), (u_AA, u_mm), (u_AA, u_um), (u_AA, u_nm), (u_AA, u_AA), (u_AA, u_lam),
     (u_lam, u_m), (u_lam, u_mm), (u_lam, u_nm), (u_lam, u_AA), (u_lam, u_lam),
     (u_px, u_px)]"
  by (simp add: inverse_pairs_def nonpixel_def unit_defs)

text \<open>
  C2, amended. The table has 43 entries under 43 different keys. Among the ordered pairs
  \<open>(A, B)\<close> of the seven canonical codes, it has an entry for exactly those with \<open>B\<close>
  other than \<open>px\<close> or with \<open>A = px\<close>: no conversion to pixels from another unit is in the
  table. For every wavelength \<open>w > 0\<close> and every pair of non-pixel codes other than
  micrometers with waves, and for pixels with pixels, both factors are defined and
  \<open>factor(A, B, w) = 1 / factor(B, A, w)\<close>.
\<close>

theorem conversion_table:
  "length unit_changes = 43
   \<and> distinct (keys unit_changes)
   \<and> (\<forall>a\<in>set canonical. \<forall>b\<in>set canonical.
        (join_us a b \<in> set (keys unit_changes)) = (b \<noteq> u_px \<or> a = u_px))
   \<and> (\<forall>w>0. \<forall>(a, b)\<in>set inverse_pairs. inverse_at a b w)"
proof -
  have n: "length unit_changes = 43" "distinct (keys unit_changes)"
    by (simp_all add: unit_changes_def keys_def unit_defs)
  have d: "\<forall>a\<in>set canonical. \<forall>b\<in>set canonical.
             (join_us a b \<in> set (keys unit_changes)) = (b \<noteq> u_px \<or> a = u_px)"
    by (simp add: canonical_def unit_changes_def keys_def unit_defs)
  have i: "\<forall>(a, b)\<in>set inverse_pairs. inverse_at a b w" if "0 < w" for w
    using that unfolding inverse_pairs_list by (simp add: factor_Some inverse_at_def)
  from n d i show ?thesis by blast
qed

theorem conversion_table_witness:
  "(0::real) < 0.6328 \<and> (u_nm, u_lam) \<in> set inverse_pairs
   \<and> u_nm \<in> set canonical \<and> u_lam \<in> set canonical
   \<and> join_us u_nm u_lam \<in> set (keys unit_changes)
   \<and> inverse_at u_nm u_lam 0.6328
   \<and> factor u_nm u_lam (Some 0.6328) = Inr (Some (10 ^ 3 * 0.6328))
   \<and> factor u_lam u_nm (Some 0.6328) = Inr (Some (1 / 10 ^ 3 / 0.6328))"
proof -
  have p: "(u_nm, u_lam) \<in> set inverse_pairs" by (simp add: inverse_pairs_list)
  have c: "u_nm \<in> set canonical" "u_lam \<in> set canonical" by (simp_all add: canonical_def)
  have x: "u_lam \<noteq> u_px" by (simp add: unit_defs)
  have k: "join_us u_nm u_lam \<in> set (keys unit_changes)"
    using conversion_table c x by blast
  have w: "(0::real) < 0.6328" by simp
  have "inverse_at u_nm u_lam 0.6328" using conversion_table p w by blast
  with p c k w show ?thesis by (simp add: factor_Some)
qed

text \<open>
  The claim as stated fails: the table has no entry \<open>m_px\<close> and has 43 entries, not 49;
  and at wavelength 2 the entries \<open>\<lambda>_\<mu>m\<close> and \<open>\<mu>m_\<lambda>\<close> both give 2, which is not its own
  inverse.
\<close>

theorem conversion_table_counterexample:
  "u_m \<in> set canonical \<and> u_px \<in> set canonical
   \<and> join_us u_m u_px \<notin> set (keys unit_changes)
   \<and> length unit_changes \<noteq> 49
   \<and> factor u_lam u_um (Some 2) = Inr (Some 2)
   \<and> factor u_um u_lam (Some 2) = Inr (Some 2)
   \<and> (2::real) \<noteq> 1 / 2
   \<and> \<not> inverse_at u_lam u_um 2"
proof -
  have "join_us u_m u_px \<notin> set (keys unit_changes)"
    by (simp add: unit_changes_def keys_def unit_defs)
  moreover have "length unit_changes \<noteq> 49" by (simp add: unit_changes_def)
  ultimately show ?thesis by (simp add: canonical_def factor_Some inverse_at_def)
qed

section \<open>Resolving unit names (C5)\<close>

lemma keys_units_list:
  "keys units =
    [asc ''m'', asc ''meter'', asc ''mm'', asc ''millimeter'', 956 # asc ''m'', asc ''um'',
     asc ''micron'', asc ''micrometer'', asc ''nm'', asc ''nanometer'', [197], asc ''aa'',
     asc ''angstrom'', [955], asc ''waves'', asc ''lambda'', asc ''px'', asc ''pixel'']"
  by (simp add: units_def keys_def)

lemma map_of_units_keys:
  "(map_of units s = None) = (s \<notin> set (keys units))"
  by (simp add: keys_def map_of_eq_None_iff)

lemma aliases_lower: "\<forall>a\<in>set (keys units). a \<noteq> [197] \<longrightarrow> lower a = a"
  by (simp add: keys_units_list asc_def lower_simps)

lemma lower_upper_AA: "lower [197] = [229]" "upper [229] = u_AA" "[229] \<notin> set (keys units)"
  by (simp_all add: keys_units_list asc_def lower_simps upper_a_ring u_AA_def)

lemma aliases_canonical:
  "\<forall>a\<in>set (keys units). \<exists>c. map_of units a = Some c \<and> c \<in> set canonical"
  unfolding keys_units_list by (simp add: canonical_def units_def unit_defs)

lemma setters_on_aliases:
  assumes "a \<in> set (keys units)" and "map_of units a = Some c"
  shows "set_phase_unit e a = Inr (e\<lparr>priv_phase_unit := Some c\<rparr>)"
    and "a \<noteq> [197] \<Longrightarrow> set_spatial_unit e a = Inr (e\<lparr>priv_spatial_unit := Some c\<rparr>)"
proof -
  show "set_phase_unit e a = Inr (e\<lparr>priv_phase_unit := Some c\<rparr>)"
  proof (cases "a = [197]")
    case True
    with assms(2) have "c = u_AA" by (simp add: units_def unit_defs)
    with True show ?thesis by (simp add: set_phase_unit_def Let_def lower_upper_AA)
  next
    case False
    with assms(1) aliases_lower have l: "lower a = a" by blast
    from False assms(1) have "a \<noteq> [229]" using lower_upper_AA(3) by auto
    with l assms(2) show ?thesis by (simp add: set_phase_unit_def Let_def)
  qed
  show "set_spatial_unit e a = Inr (e\<lparr>priv_spatial_unit := Some c\<rparr>)" if "a \<noteq> [197]"
  proof -
    from that assms(1) aliases_lower have "lower a = a" by blast
    with assms(2) show ?thesis by (simp add: set_spatial_unit_def Let_def)
  qed
qed

lemma setters_reject:
  "lower s \<notin> set (keys units) \<Longrightarrow> lower s \<noteq> [229] \<Longrightarrow>
     set_phase_unit e s = Inl (ValueError (lower s) (keys units))"
  "lower s \<notin> set (keys units) \<Longrightarrow>
     set_spatial_unit e s = Inl (ValueError (lower s) (keys units))"
  using map_of_units_keys [of "lower s"]
  by (simp_all add: set_phase_unit_def set_spatial_unit_def Let_def)

lemma change_rejects:
  assumes "s \<notin> set (keys units)"
  shows "change_phase_unit e s ip = (Inl (KeyError s), e)"
    and "lower s \<noteq> asc ''px'' \<Longrightarrow> change_spatial_unit e s ip = (Inl (KeyError s), e)"
  using assms map_of_units_keys [of s]
  by (simp_all add: change_phase_unit_def change_spatial_unit_def new_axes_def subscript_def)

lemma units_lookup:
  "subscript units (asc ''waves'') = Inr u_lam"
  "subscript units [955] = Inr u_lam"
  "subscript units (956 # asc ''m'') = Inr u_um"
  "subscript units (asc ''nm'') = Inr u_nm"
  "subscript units (asc ''pixel'') = Inr u_px"
  "subscript units [197] = Inr u_AA"
  by (simp_all add: subscript_def units_def unit_defs)

lemma factor_None:
  "factor u_m u_lam None = Inl TypeError"
  "factor u_mm u_lam None = Inl TypeError"
  "factor u_um u_lam None = Inl TypeError"
  "factor u_nm u_lam None = Inl TypeError"
  "factor u_AA u_lam None = Inl TypeError"
  "factor u_lam u_m None = Inl TypeError"
  "factor u_lam u_mm None = Inl TypeError"
  "factor u_lam u_nm None = Inl TypeError"
  "factor u_lam u_AA None = Inl TypeError"
  "factor u_lam u_lam None = Inr (Some 1)"
  "factor u_px u_lam None = Inr (Some 1)"
  "factor u_lam u_um None = Inr None"
  by (simp_all add: factor_defs unit_defs)

lemma factor_const:
  "factor u_m u_m w = Inr (Some 1)"
  "factor u_m u_mm w = Inr (Some (1 / 10 ^ 3))"
  "factor u_m u_um w = Inr (Some (1 / 10 ^ 6))"
  "factor u_m u_nm w = Inr (Some (1 / 10 ^ 9))"
  "factor u_m u_AA w = Inr (Some (1 / 10 ^ 10))"
  "factor u_mm u_mm w = Inr (Some 1)"
  "factor u_mm u_m w = Inr (Some (10 ^ 3))"
  "factor u_mm u_um w = Inr (Some (1 / 10 ^ 3))"
  "factor u_mm u_nm w = Inr (Some (1 / 10 ^ 6))"
  "factor u_mm u_AA w = Inr (Some (1 / 10 ^ 7))"
  "factor u_um u_um w = Inr (Some 1)"
  "factor u_um u_m w = Inr (Some (10 ^ 6))"
  "factor u_um u_mm w = Inr (Some (10 ^ 3))"
  "factor u_um u_nm w = Inr (Some (1 / 10 ^ 3))"
  "factor u_um u_AA w = Inr (Some (1 / 10 ^ 4))"
  "factor u_nm u_nm w = Inr (Some 1)"
  "factor u_nm u_m w = Inr (Some (10 ^ 9))"
  "factor u_nm u_mm w = Inr (Some (10 ^ 6))"
  "factor u_nm u_um w = Inr (Some (10 ^ 3))"
  "factor u_nm u_AA w = Inr (Some (1 / 10))"
  "factor u_AA u_AA w = Inr (Some 1)"
  "factor u_AA u_m w = Inr (Some (10 ^ 10))"
  "factor u_AA u_mm w = Inr (Some (10 ^ 7))"
  "factor u_AA u_um w = Inr (Some (10 ^ 4))"
  "factor u_AA u_nm w = Inr (Some 10)"
  "factor u_lam u_lam w = Inr (Some 1)"
  "factor u_px u_px w = Inr (Some 1)"
  "factor u_px u_m w = Inr (Some 1)"
  "factor u_px u_mm w = Inr (Some 1)"
  "factor u_px u_um w = Inr (Some 1)"
  "factor u_px u_nm w = Inr (Some 1)"
  "factor u_px u_AA w = Inr (Some 1)"
  "factor u_px u_lam w = Inr (Some 1)"
  by (simp_all add: factor_defs unit_defs)

lemma factor_ignores_wavelength:
  "\<forall>a\<in>set canonical. \<forall>b\<in>set canonical.
     a \<noteq> u_lam \<and> b \<noteq> u_lam \<longrightarrow> factor a b w = factor a b None"
  by (simp add: canonical_def factor_const factor_to_px)

lemma np_div_one: "np_div v 1 = v"
  by (cases v) simp_all

lemma aliases_not_px: "\<forall>a\<in>set (keys units). a \<noteq> asc ''px'' \<longrightarrow> lower a \<noteq> asc ''px''"
  by (simp add: keys_units_list asc_def lower_simps)

lemma aliases_of_px:
  "\<forall>a\<in>set (keys units). map_of units a = Some u_px \<longrightarrow> a = asc ''px'' \<or> a = asc ''pixel''"
  unfolding keys_units_list by (simp add: units_def unit_defs)

text \<open>
  What the two conversions do with a target that the alias table resolves to \<open>c\<close>, on
  an entity that is read in \<open>cur\<close>.
\<close>

lemma change_phase_unit_resolved:
  assumes "subscript units to = Inr c" and "phase_unit e = cur"
  shows "factor cur c (wavelength e) = Inl err \<Longrightarrow> change_phase_unit e to ip = (Inl err, e)"
    and "factor cur c (wavelength e) = Inr None \<Longrightarrow> change_phase_unit e to ip = (Inl TypeError, e)"
    and "factor cur c (wavelength e) = Inr (Some f) \<Longrightarrow>
           change_phase_unit e to False
             = (Inr (RetPhase (map (map (\<lambda>v. np_div v f)) (phase e))), e)"
    and "factor cur c (wavelength e) = Inr (Some f) \<Longrightarrow>
         set_phase_unit (e\<lparr>phase := map (map (\<lambda>v. np_div v f)) (phase e)\<rparr>) to = Inr e' \<Longrightarrow>
           change_phase_unit e to True = (Inr RetSelf, e')"
  using assms by (simp_all add: change_phase_unit_def div_grid_def)

lemma change_spatial_unit_resolved:
  assumes "subscript units to = Inr c" and "spatial_unit e = cur" and "lower to \<noteq> asc ''px''"
  shows "factor cur c (wavelength e) = Inl err \<Longrightarrow> change_spatial_unit e to ip = (Inl err, e)"
    and "factor cur c (wavelength e) = Inr None \<Longrightarrow> change_spatial_unit e to ip = (Inl TypeError, e)"
    and "factor cur c (wavelength e) = Inr (Some f) \<Longrightarrow>
           change_spatial_unit e to False
             = (Inr (RetAxes (map (\<lambda>v. np_div v f) (x_axis e)) (map (\<lambda>v. np_div v f) (y_axis e))),
                e)"
    and "factor cur c (wavelength e) = Inr (Some f) \<Longrightarrow>
         set_spatial_unit (e\<lparr>x_axis := map (\<lambda>v. np_div v f) (x_axis e),
                             y_axis := map (\<lambda>v. np_div v f) (y_axis e)\<rparr>) to = Inr e' \<Longrightarrow>
           change_spatial_unit e to True = (Inr RetSelf, e')"
  using assms by (simp_all add: change_spatial_unit_def new_axes_def div_axis_def)

lemma arange_index: "length (arange n) = n \<and> (\<forall>i<n. arange n ! i = Fin (real i))"
  by (simp add: arange_def)

lemma px_regenerates:
  assumes "lower to = asc ''px''"
  shows "change_spatial_unit e to False
           = (Inr (RetAxes (arange (snd (shape e))) (arange (fst (shape e)))), e)"
    and "change_spatial_unit e to True
           = (Inr RetSelf, e\<lparr>x_axis := arange (snd (shape e)), y_axis := arange (fst (shape e)),
                              priv_spatial_unit := Some u_px\<rparr>)"
proof -
  have n: "new_axes e to = Inr (arange (snd (shape e)), arange (fst (shape e)))"
    using assms by (simp add: new_axes_def split: prod.splits)
  have m: "map_of units (asc ''px'') = Some u_px" by (simp add: units_def unit_defs)
  have s: "set_spatial_unit e' to = Inr (e'\<lparr>priv_spatial_unit := Some u_px\<rparr>)" for e'
    using assms m by (simp add: set_spatial_unit_def Let_def)
  show "change_spatial_unit e to False
           = (Inr (RetAxes (arange (snd (shape e))) (arange (fst (shape e)))), e)"
    by (simp add: change_spatial_unit_def n)
  show "change_spatial_unit e to True
           = (Inr RetSelf, e\<lparr>x_axis := arange (snd (shape e)), y_axis := arange (fst (shape e)),
                              priv_spatial_unit := Some u_px\<rparr>)"
    by (simp add: change_spatial_unit_def n s)
qed

text \<open>
  C5, amended. The two setters resolve a name without regard to case: the name is
  lower-cased and looked up in the alias table, so two names with the same lower-casing
  are treated alike. Every listed alias is resolved to its canonical code by the
  \<open>phase_unit\<close> setter, and by the \<open>spatial_unit\<close> setter when it is not the letter A with
  ring. The \<open>phase_unit\<close> setter also takes every name whose lower-casing is the small a
  with ring, which is no key of the table, for the angstrom. A name whose lower-casing
  is neither in the table nor the small a with ring is rejected by both setters with the
  invalid-unit error, which carries the lower-cased name and the keys of the table.

  The target of \<open>change_phase_unit\<close> and of \<open>change_spatial_unit\<close> is looked up as it is
  written. A name that is no key raises KeyError with that name and leaves the entity
  as it was (in \<open>change_spatial_unit\<close> unless its lower-casing is \<open>px\<close>). A listed alias is
  resolved to its canonical code \<open>c\<close>: on an entity whose two units are both \<open>cur\<close>, the
  call goes on with the factor from \<open>cur\<close> to \<open>c\<close>; an error of that factor is the
  outcome, a factor \<open>None\<close> gives TypeError, and a factor \<open>f\<close> gives the phase (the axes)
  divided by \<open>f\<close>, handed back or, in place, stored together with \<open>c\<close> in the private
  unit field. For \<open>change_spatial_unit\<close> this is so for the aliases of the units other
  than \<open>px\<close>, and in place for those other than A with ring. A target whose lower-casing
  is \<open>px\<close> gives the index sequences of the grid's columns and rows.
\<close>

theorem unit_resolution:
  "(\<forall>a\<in>set (keys units). \<exists>c. c \<in> set canonical \<and> subscript units a = Inr c
        \<and> set_phase_unit e a = Inr (e\<lparr>priv_phase_unit := Some c\<rparr>)
        \<and> (a \<noteq> [197] \<longrightarrow> set_spatial_unit e a = Inr (e\<lparr>priv_spatial_unit := Some c\<rparr>))
        \<and> (xyunit e = cur \<and> zunit e = cur \<longrightarrow>
             (case factor cur c (wavelength e) of
                Inl err \<Rightarrow> change_phase_unit e a ip = (Inl err, e)
              | Inr None \<Rightarrow> change_phase_unit e a ip = (Inl TypeError, e)
              | Inr (Some f) \<Rightarrow>
                  change_phase_unit e a False
                    = (Inr (RetPhase (map (map (\<lambda>v. np_div v f)) (phase e))), e)
                  \<and> change_phase_unit e a True
                    = (Inr RetSelf, e\<lparr>phase := map (map (\<lambda>v. np_div v f)) (phase e),
                                       priv_phase_unit := Some c\<rparr>)))
        \<and> (xyunit e = cur \<and> zunit e = cur \<and> c \<noteq> u_px \<longrightarrow>
             (case factor cur c (wavelength e) of
                Inl err \<Rightarrow> change_spatial_unit e a ip = (Inl err, e)
              | Inr None \<Rightarrow> change_spatial_unit e a ip = (Inl TypeError, e)
              | Inr (Some f) \<Rightarrow>
                  change_spatial_unit e a False
                    = (Inr (RetAxes (map (\<lambda>v. np_div v f) (x_axis e))
                                    (map (\<lambda>v. np_div v f) (y_axis e))), e)
                  \<and> (a \<noteq> [197] \<longrightarrow>
                      change_spatial_unit e a True
                        = (Inr RetSelf, e\<lparr>x_axis := map (\<lambda>v. np_div v f) (x_axis e),
                                           y_axis := map (\<lambda>v. np_div v f) (y_axis e),
                                           priv_spatial_unit := Some c\<rparr>)))))
   \<and> (lower s = lower t \<longrightarrow>
        set_phase_unit e s = set_phase_unit e t \<and> set_spatial_unit e s = set_spatial_unit e t)
   \<and> (lower s = [229] \<longrightarrow> set_phase_unit e s = Inr (e\<lparr>priv_phase_unit := Some u_AA\<rparr>))
   \<and> (lower s \<notin> set (keys units) \<and> lower s \<noteq> [229] \<longrightarrow>
        set_phase_unit e s = Inl (ValueError (lower s) (keys units))
        \<and> set_spatial_unit e s = Inl (ValueError (lower s) (keys units)))
   \<and> (s \<notin> set (keys units) \<longrightarrow> change_phase_unit e s ip = (Inl (KeyError s), e))
   \<and> (s \<notin> set (keys units) \<and> lower s \<noteq> asc ''px'' \<longrightarrow>
        change_spatial_unit e s ip = (Inl (KeyError s), e))
   \<and> (lower s = asc ''px'' \<longrightarrow>
        change_spatial_unit e s False
          = (Inr (RetAxes (arange (snd (shape e))) (arange (fst (shape e)))), e)
        \<and> change_spatial_unit e s True
          = (Inr RetSelf, e\<lparr>x_axis := arange (snd (shape e)), y_axis := arange (fst (shape e)),
                             priv_spatial_unit := Some u_px\<rparr>))"
proof -
  have a: "\<exists>c. c \<in> set canonical \<and> subscript units a = Inr c
        \<and> set_phase_unit e a = Inr (e\<lparr>priv_phase_unit := Some c\<rparr>)
        \<and> (a \<noteq> [197] \<longrightarrow> set_spatial_unit e a = Inr (e\<lparr>priv_spatial_unit := Some c\<rparr>))
        \<and> (xyunit e = cur \<and> zunit e = cur \<longrightarrow>
             (case factor cur c (wavelength e) of
                Inl err \<Rightarrow> change_phase_unit e a ip = (Inl err, e)
              | Inr None \<Rightarrow> change_phase_unit e a ip = (Inl TypeError, e)
              | Inr (Some f) \<Rightarrow>
                  change_phase_unit e a False
                    = (Inr (RetPhase (map (map (\<lambda>v. np_div v f)) (phase e))), e)
                  \<and> change_phase_unit e a True
                    = (Inr RetSelf, e\<lparr>phase := map (map (\<lambda>v. np_div v f)) (phase e),
                                       priv_phase_unit := Some c\<rparr>)))
        \<and> (xyunit e = cur \<and> zunit e = cur \<and> c \<noteq> u_px \<longrightarrow>
             (case factor cur c (wavelength e) of
                Inl err \<Rightarrow> change_spatial_unit e a ip = (Inl err, e)
              | Inr None \<Rightarrow> change_spatial_unit e a ip = (Inl TypeError, e)
              | Inr (Some f) \<Rightarrow>
                  change_spatial_unit e a False
                    = (Inr (RetAxes (map (\<lambda>v. np_div v f) (x_axis e))
                                    (map (\<lambda>v. np_div v f) (y_axis e))), e)
                  \<and> (a \<noteq> [197] \<longrightarrow>
                      change_spatial_unit e a True
                        = (Inr RetSelf, e\<lparr>x_axis := map (\<lambda>v. np_div v f) (x_axis e),
                                           y_axis := map (\<lambda>v. np_div v f) (y_axis e),
                                           priv_spatial_unit := Some c\<rparr>))))"
    if k: "a \<in> set (keys units)" for a
  proof -
    from k aliases_canonical obtain c where c: "map_of units a = Some c" "c \<in> set canonical"
      by blast
    have r: "subscript units a = Inr c" by (simp add: subscript_def c)
    note st = setters_on_aliases [OF k c(1)]
    have ph: "case factor cur c (wavelength e) of
                Inl err \<Rightarrow> change_phase_unit e a ip = (Inl err, e)
              | Inr None \<Rightarrow> change_phase_unit e a ip = (Inl TypeError, e)
              | Inr (Some f) \<Rightarrow>
                  change_phase_unit e a False
                    = (Inr (RetPhase (map (map (\<lambda>v. np_div v f)) (phase e))), e)
                  \<and> change_phase_unit e a True
                    = (Inr RetSelf, e\<lparr>phase := map (map (\<lambda>v. np_div v f)) (phase e),
                                       priv_phase_unit := Some c\<rparr>)"
      if u: "xyunit e = cur"
    proof -
      have g: "phase_unit e = cur" using u by (simp add: phase_unit_def)
      note cp = change_phase_unit_resolved [OF r g]
      show ?thesis
      proof (cases "factor cur c (wavelength e)")
        case (Inl err)
        with cp(1) show ?thesis by simp
      next
        case (Inr fo)
        show ?thesis
        proof (cases fo)
          case None
          with Inr cp(2) show ?thesis by simp
        next
          case (Some f)
          with Inr have fs: "factor cur c (wavelength e) = Inr (Some f)" by simp
          from cp(3) [OF fs] cp(4) [OF fs st(1)] fs show ?thesis by simp
        qed
      qed
    qed
    have sp: "case factor cur c (wavelength e) of
                Inl err \<Rightarrow> change_spatial_unit e a ip = (Inl err, e)
              | Inr None \<Rightarrow> change_spatial_unit e a ip = (Inl TypeError, e)
              | Inr (Some f) \<Rightarrow>
                  change_spatial_unit e a False
                    = (Inr (RetAxes (map (\<lambda>v. np_div v f) (x_axis e))
                                    (map (\<lambda>v. np_div v f) (y_axis e))), e)
                  \<and> (a \<noteq> [197] \<longrightarrow>
                      change_spatial_unit e a True
                        = (Inr RetSelf, e\<lparr>x_axis := map (\<lambda>v. np_div v f) (x_axis e),
                                           y_axis := map (\<lambda>v. np_div v f) (y_axis e),
                                           priv_spatial_unit := Some c\<rparr>))"
      if u: "zunit e = cur" and np: "c \<noteq> u_px"
    proof -
      have g: "spatial_unit e = cur" using u by (simp add: spatial_unit_def)
      from np c(1) have "a \<noteq> asc ''px''" by (auto simp: units_def unit_defs)
      with k aliases_not_px have l: "lower a \<noteq> asc ''px''" by blast
      note cs = change_spatial_unit_resolved [OF r g l]
      show ?thesis
      proof (cases "factor cur c (wavelength e)")
        case (Inl err)
        with cs(1) show ?thesis by simp
      next
        case (Inr fo)
        show ?thesis
        proof (cases fo)
          case None
          with Inr cs(2) show ?thesis by simp
        next
          case (Some f)
          with Inr have fs: "factor cur c (wavelength e) = Inr (Some f)" by simp
          have "change_spatial_unit e a True
                  = (Inr RetSelf, e\<lparr>x_axis := map (\<lambda>v. np_div v f) (x_axis e),
                                     y_axis := map (\<lambda>v. np_div v f) (y_axis e),
                                     priv_spatial_unit := Some c\<rparr>)"
            if "a \<noteq> [197]"
            using cs(4) [OF fs st(2) [OF that]] by simp
          with cs(3) [OF fs] fs show ?thesis by simp
        qed
      qed
    qed
    from c(2) r st ph sp show ?thesis by blast
  qed
  have b: "set_phase_unit e s = set_phase_unit e t \<and> set_spatial_unit e s = set_spatial_unit e t"
    if "lower s = lower t"
    using that by (simp add: set_phase_unit_def set_spatial_unit_def Let_def)
  have r: "set_phase_unit e s = Inr (e\<lparr>priv_phase_unit := Some u_AA\<rparr>)" if "lower s = [229]"
    using that by (simp add: set_phase_unit_def Let_def lower_upper_AA)
  note p = px_regenerates [of s e]
  from a b r setters_reject [of s e] change_rejects [of s e ip] p show ?thesis
    by (intro conjI ballI impI) blast+
qed

theorem unit_resolution_witness:
  "asc ''nanometer'' \<in> set (keys units) \<and> asc ''nanometer'' \<noteq> [197]
   \<and> xyunit ex_um = u_um \<and> zunit ex_um = u_um \<and> u_nm \<noteq> u_px \<and> u_nm \<in> set canonical
   \<and> subscript units (asc ''nanometer'') = Inr u_nm
   \<and> factor u_um u_nm (wavelength ex_um) = Inr (Some (1 / 10 ^ 3))
   \<and> set_phase_unit ex_um (asc ''nanometer'') = Inr (ex_um\<lparr>priv_phase_unit := Some u_nm\<rparr>)
   \<and> set_spatial_unit ex_um (asc ''nanometer'') = Inr (ex_um\<lparr>priv_spatial_unit := Some u_nm\<rparr>)
   \<and> change_phase_unit ex_um (asc ''nanometer'') False = (Inr (RetPhase [[Fin 1000]]), ex_um)
   \<and> change_phase_unit ex_um (asc ''nanometer'') True
       = (Inr RetSelf, ex_um\<lparr>phase := [[Fin 1000]], priv_phase_unit := Some u_nm\<rparr>)
   \<and> change_spatial_unit ex_um (asc ''nanometer'') False
       = (Inr (RetAxes [Fin 0] [Fin 0]), ex_um)
   \<and> change_spatial_unit ex_um (asc ''nanometer'') True
       = (Inr RetSelf, ex_um\<lparr>x_axis := [Fin 0], y_axis := [Fin 0],
                             priv_spatial_unit := Some u_nm\<rparr>)
   \<and> lower (asc ''Furlong'') = lower (asc ''furlong'')
   \<and> lower (asc ''Furlong'') \<notin> set (keys units) \<and> lower (asc ''Furlong'') \<noteq> [229]
   \<and> asc ''Furlong'' \<notin> set (keys units) \<and> lower (asc ''Furlong'') \<noteq> asc ''px''
   \<and> set_phase_unit ex_um (asc ''Furlong'') = set_phase_unit ex_um (asc ''furlong'')
   \<and> set_phase_unit ex_um (asc ''Furlong'') = Inl (ValueError (asc ''furlong'') (keys units))
   \<and> set_spatial_unit ex_um (asc ''Furlong'') = Inl (ValueError (asc ''furlong'') (keys units))
   \<and> change_phase_unit ex_um (asc ''Furlong'') True = (Inl (KeyError (asc ''Furlong'')), ex_um)
   \<and> change_spatial_unit ex_um (asc ''Furlong'') True
       = (Inl (KeyError (asc ''Furlong'')), ex_um)
   \<and> lower [197] = [229]
   \<and> set_phase_unit ex_um [197] = Inr (ex_um\<lparr>priv_phase_unit := Some u_AA\<rparr>)
   \<and> lower (asc ''PX'') = asc ''px''
   \<and> change_spatial_unit ex_um (asc ''PX'') False = (Inr (RetAxes [Fin 0] [Fin 0]), ex_um)"
proof -
  have k: "asc ''nanometer'' \<in> set (keys units)" "asc ''nanometer'' \<noteq> [197]"
    unfolding keys_units_list by (simp_all add: asc_def)
  have f: "xyunit ex_um = u_um" "zunit ex_um = u_um" "wavelength ex_um = Some 0.5"
    "phase ex_um = [[Fin 1]]" "x_axis ex_um = [Fin 0]" "y_axis ex_um = [Fin 0]"
    "shape ex_um = (1, 1)"
    by (simp_all add: ex_um_def init_defs shape_def)
  have c: "u_nm \<noteq> u_px" "u_nm \<in> set canonical"
    by (simp_all add: canonical_def unit_defs)
  have r: "subscript units (asc ''nanometer'') = Inr u_nm"
    by (simp add: subscript_def units_def unit_defs)
  have fc: "factor u_um u_nm (wavelength ex_um) = Inr (Some (1 / 10 ^ 3))"
    by (simp add: factor_const)
  have l: "lower (asc ''Furlong'') = asc ''furlong''" "lower (asc ''furlong'') = asc ''furlong''"
    "lower (asc ''PX'') = asc ''px''"
    by (simp_all add: asc_def lower_simps)
  have n: "asc ''furlong'' \<notin> set (keys units)" "asc ''Furlong'' \<notin> set (keys units)"
    unfolding keys_units_list by (simp_all add: asc_def)
  have d: "asc ''furlong'' \<noteq> [229]" "asc ''furlong'' \<noteq> asc ''px''"
    by (simp_all add: asc_def)
  note u = unit_resolution [where e = ex_um and cur = u_um and ip = True
      and s = "asc ''Furlong''" and t = "asc ''furlong''", unfolded l]
  note v = unit_resolution [where e = ex_um and s = "[197]"]
  note w = unit_resolution [where e = ex_um and s = "asc ''PX''", unfolded l]
  from u k obtain c' where c':
    "subscript units (asc ''nanometer'') = Inr c'"
    "set_phase_unit ex_um (asc ''nanometer'') = Inr (ex_um\<lparr>priv_phase_unit := Some c'\<rparr>)"
    "set_spatial_unit ex_um (asc ''nanometer'') = Inr (ex_um\<lparr>priv_spatial_unit := Some c'\<rparr>)"
    "xyunit ex_um = u_um \<and> zunit ex_um = u_um \<longrightarrow>
       (case factor u_um c' (wavelength ex_um) of
          Inl err \<Rightarrow> change_phase_unit ex_um (asc ''nanometer'') True = (Inl err, ex_um)
        | Inr None \<Rightarrow> change_phase_unit ex_um (asc ''nanometer'') True = (Inl TypeError, ex_um)
        | Inr (Some f) \<Rightarrow>
            change_phase_unit ex_um (asc ''nanometer'') False
              = (Inr (RetPhase (map (map (\<lambda>v. np_div v f)) (phase ex_um))), ex_um)
            \<and> change_phase_unit ex_um (asc ''nanometer'') True
              = (Inr RetSelf, ex_um\<lparr>phase := map (map (\<lambda>v. np_div v f)) (phase ex_um),
                                    priv_phase_unit := Some c'\<rparr>))"
    "xyunit ex_um = u_um \<and> zunit ex_um = u_um \<and> c' \<noteq> u_px \<longrightarrow>
       (case factor u_um c' (wavelength ex_um) of
          Inl err \<Rightarrow> change_spatial_unit ex_um (asc ''nanometer'') True = (Inl err, ex_um)
        | Inr None \<Rightarrow> change_spatial_unit ex_um (asc ''nanometer'') True = (Inl TypeError, ex_um)
        | Inr (Some f) \<Rightarrow>
            change_spatial_unit ex_um (asc ''nanometer'') False
              = (Inr (RetAxes (map (\<lambda>v. np_div v f) (x_axis ex_um))
                              (map (\<lambda>v. np_div v f) (y_axis ex_um))), ex_um)
            \<and> (asc ''nanometer'' \<noteq> [197] \<longrightarrow>
                change_spatial_unit ex_um (asc ''nanometer'') True
                  = (Inr RetSelf, ex_um\<lparr>x_axis := map (\<lambda>v. np_div v f) (x_axis ex_um),
                                        y_axis := map (\<lambda>v. np_div v f) (y_axis ex_um),
                                        priv_spatial_unit := Some c'\<rparr>)))"
    by blast
  from c'(1) r have e: "c' = u_nm" by simp
  from c'(2,3) e have st:
    "set_phase_unit ex_um (asc ''nanometer'') = Inr (ex_um\<lparr>priv_phase_unit := Some u_nm\<rparr>)"
    "set_spatial_unit ex_um (asc ''nanometer'') = Inr (ex_um\<lparr>priv_spatial_unit := Some u_nm\<rparr>)"
    by simp_all
  from c'(4) e f(1,2) fc have ph:
    "change_phase_unit ex_um (asc ''nanometer'') False = (Inr (RetPhase [[Fin 1000]]), ex_um)"
    "change_phase_unit ex_um (asc ''nanometer'') True
       = (Inr RetSelf, ex_um\<lparr>phase := [[Fin 1000]], priv_phase_unit := Some u_nm\<rparr>)"
    by (simp_all add: f(4))
  from c'(5) e f(1,2) fc c(1) k(2) have sp:
    "change_spatial_unit ex_um (asc ''nanometer'') False
       = (Inr (RetAxes [Fin 0] [Fin 0]), ex_um)"
    "change_spatial_unit ex_um (asc ''nanometer'') True
       = (Inr RetSelf, ex_um\<lparr>x_axis := [Fin 0], y_axis := [Fin 0],
                             priv_spatial_unit := Some u_nm\<rparr>)"
    by (simp_all add: f(5,6))
  from u n d have rj:
    "set_phase_unit ex_um (asc ''Furlong'') = set_phase_unit ex_um (asc ''furlong'')"
    "set_phase_unit ex_um (asc ''Furlong'') = Inl (ValueError (asc ''furlong'') (keys units))"
    "set_spatial_unit ex_um (asc ''Furlong'') = Inl (ValueError (asc ''furlong'') (keys units))"
    "change_phase_unit ex_um (asc ''Furlong'') True = (Inl (KeyError (asc ''Furlong'')), ex_um)"
    "change_spatial_unit ex_um (asc ''Furlong'') True = (Inl (KeyError (asc ''Furlong'')), ex_um)"
    by blast+
  from v lower_upper_AA(1) have aa:
    "set_phase_unit ex_um [197] = Inr (ex_um\<lparr>priv_phase_unit := Some u_AA\<rparr>)"
    by blast
  from w have "change_spatial_unit ex_um (asc ''PX'') False
          = (Inr (RetAxes (arange (snd (shape ex_um))) (arange (fst (shape ex_um)))), ex_um)"
    by blast
  then have px: "change_spatial_unit ex_um (asc ''PX'') False
          = (Inr (RetAxes [Fin 0] [Fin 0]), ex_um)"
    by (simp add: f(7) arange_def)
  from k f(1,2) c r fc st ph sp n d rj lower_upper_AA(1) aa px show ?thesis
    unfolding l by (intro conjI) simp_all
qed

text \<open>
  The claim as stated fails. \<open>'NM'\<close> is accepted by the setter and resolved to \<open>'nm'\<close>,
  but as the target of a conversion it raises KeyError; an unknown target raises
  KeyError too, not the invalid-unit error. The small a with ring is no key of the
  table, and the \<open>phase_unit\<close> setter accepts it. The \<open>spatial_unit\<close> setter rejects the
  listed alias A with ring, whose lower-casing is not a key of the table.
\<close>

theorem unit_resolution_counterexample:
  "lower (asc ''NM'') = asc ''nm''
   \<and> set_phase_unit ex_nm (asc ''NM'') = Inr (ex_nm\<lparr>priv_phase_unit := Some u_nm\<rparr>)
   \<and> change_phase_unit ex_nm (asc ''NM'') False = (Inl (KeyError (asc ''NM'')), ex_nm)
   \<and> change_phase_unit ex_nm (asc ''furlong'') False = (Inl (KeyError (asc ''furlong'')), ex_nm)
   \<and> change_spatial_unit ex_nm (asc ''furlong'') False
       = (Inl (KeyError (asc ''furlong'')), ex_nm)
   \<and> [229] \<notin> set (keys units)
   \<and> set_phase_unit ex_nm [229] = Inr (ex_nm\<lparr>priv_phase_unit := Some u_AA\<rparr>)
   \<and> [197] \<in> set (keys units)
   \<and> set_spatial_unit ex_nm [197] = Inl (ValueError [229] (keys units))"
proof -
  have l: "lower (asc ''NM'') = asc ''nm''"
    by (simp add: asc_def lower_simps)
  have lf: "lower (asc ''furlong'') \<noteq> asc ''px''"
    by (simp add: asc_def lower_simps)
  have la: "lower [229] = [229]" by (simp add: lower_simps)
  have n: "asc ''NM'' \<notin> set (keys units)" "asc ''furlong'' \<notin> set (keys units)"
    unfolding keys_units_list by (simp_all add: asc_def)
  have m: "map_of units (asc ''nm'') = Some u_nm"
    by (simp add: units_def unit_defs)
  have d: "asc ''nm'' \<noteq> [229]" by (simp add: asc_def)
  have s: "set_phase_unit ex_nm (asc ''NM'') = Inr (ex_nm\<lparr>priv_phase_unit := Some u_nm\<rparr>)"
    by (simp add: set_phase_unit_def Let_def l m d)
  have a: "set_phase_unit ex_nm [229] = Inr (ex_nm\<lparr>priv_phase_unit := Some u_AA\<rparr>)"
    by (simp add: set_phase_unit_def Let_def la lower_upper_AA)
  have k: "[197] \<in> set (keys units)" unfolding keys_units_list by simp
  have r: "set_spatial_unit ex_nm [197] = Inl (ValueError [229] (keys units))"
    using setters_reject(2) [of "[197]" ex_nm] lower_upper_AA by simp
  note c1 = change_rejects(1) [OF n(1), of ex_nm False]
  note c2 = change_rejects(1) [OF n(2), of ex_nm False]
  note c3 = change_rejects(2) [OF n(2) lf, of ex_nm False]
  from l s c1 c2 c3 lower_upper_AA(3) a k r show ?thesis by (intro conjI)
qed

section \<open>Conversions that need the wavelength (C6)\<close>

text \<open>
  C6, amended. Take an entity without a wavelength whose two units are both \<open>A\<close>.
  Converting its phase to waves, for \<open>A\<close> one of m, mm, micrometers, nm and angstrom, or
  from waves (\<open>A\<close> is waves) to one of these five fails with TypeError, not with a named
  validation error, in place or not, and leaves the entity as it was. For every such
  pair but waves to micrometers the error is raised when the factor is evaluated. The
  entries \<open>\<lambda>_\<lambda>\<close> and \<open>px_\<lambda>\<close> are the constant 1 and need no wavelength: for \<open>A\<close> waves or
  pixels the conversion to waves hands the phase back as it is. The factor between two
  units other than waves does not depend on the wavelength. With a positive wavelength
  \<open>w\<close>, on an entity whose two units are both micrometers, the conversion to waves divides
  every element of the phase by \<open>w\<close>: not in place it hands the quotient back and leaves
  the entity as it was, in place it stores the quotient, writes the code of waves to
  \<open>_phase_unit\<close> and returns the entity.
\<close>

theorem waves_need_wavelength:
  "(wavelength e = None \<and> xyunit e = a \<and> zunit e = a \<and> subscript units to = Inr b
      \<and> ((a \<in> set [u_m, u_mm, u_um, u_nm, u_AA] \<and> b = u_lam)
          \<or> (a = u_lam \<and> b \<in> set [u_m, u_mm, u_um, u_nm, u_AA]))
      \<longrightarrow> change_phase_unit e to ip = (Inl TypeError, e))
   \<and> (\<forall>c\<in>set [u_m, u_mm, u_um, u_nm, u_AA]. factor c u_lam None = Inl TypeError)
   \<and> (\<forall>c\<in>set [u_m, u_mm, u_nm, u_AA]. factor u_lam c None = Inl TypeError)
   \<and> factor u_lam u_lam None = Inr (Some 1)
   \<and> factor u_px u_lam None = Inr (Some 1)
   \<and> (wavelength e = None \<and> xyunit e = a \<and> zunit e = a \<and> subscript units to = Inr u_lam
      \<and> (a = u_lam \<or> a = u_px)
      \<longrightarrow> change_phase_unit e to False = (Inr (RetPhase (phase e)), e))
   \<and> (\<forall>c\<in>set canonical. \<forall>d\<in>set canonical.
        c \<noteq> u_lam \<and> d \<noteq> u_lam \<longrightarrow> factor c d wl = factor c d None)
   \<and> (0 < w \<and> wavelength e = Some w \<and> xyunit e = u_um \<and> zunit e = u_um
      \<and> subscript units to = Inr u_lam
      \<longrightarrow> change_phase_unit e to False
            = (Inr (RetPhase (map (map (\<lambda>v. np_div v w)) (phase e))), e)
          \<and> change_phase_unit e to True
            = (Inr RetSelf, e\<lparr>phase := map (map (\<lambda>v. np_div v w)) (phase e),
                               priv_phase_unit := Some u_lam\<rparr>)
          \<and> np_div (Fin r) w = Fin (r / w))"
proof -
  have t: "change_phase_unit e to ip = (Inl TypeError, e)"
    if h: "wavelength e = None" "xyunit e = a" "subscript units to = Inr b"
      "(a \<in> set [u_m, u_mm, u_um, u_nm, u_AA] \<and> b = u_lam)
       \<or> (a = u_lam \<and> b \<in> set [u_m, u_mm, u_um, u_nm, u_AA])"
  proof -
    have g: "phase_unit e = a" using h(2) by (simp add: phase_unit_def)
    note cp = change_phase_unit_resolved [OF h(3) g]
    from h(4) have "factor a b None = Inl TypeError \<or> factor a b None = Inr None"
      by (auto simp: factor_None)
    with cp(1) [of TypeError ip] cp(2) [of ip] h(1) show ?thesis by auto
  qed
  have f1: "\<forall>c\<in>set [u_m, u_mm, u_um, u_nm, u_AA]. factor c u_lam None = Inl TypeError"
    by (simp add: factor_None)
  have f2: "\<forall>c\<in>set [u_m, u_mm, u_nm, u_AA]. factor u_lam c None = Inl TypeError"
    by (simp add: factor_None)
  have one: "change_phase_unit e to False = (Inr (RetPhase (phase e)), e)"
    if h: "wavelength e = None" "xyunit e = a" "subscript units to = Inr u_lam"
      "a = u_lam \<or> a = u_px"
  proof -
    have g: "phase_unit e = a" using h(2) by (simp add: phase_unit_def)
    from h(4) have "factor a u_lam (wavelength e) = Inr (Some 1)"
      by (auto simp: factor_None h(1))
    from change_phase_unit_resolved(3) [OF h(3) g this] show ?thesis
      by (simp add: np_div_one)
  qed
  have pos: "change_phase_unit e to False
            = (Inr (RetPhase (map (map (\<lambda>v. np_div v w)) (phase e))), e)
          \<and> change_phase_unit e to True
            = (Inr RetSelf, e\<lparr>phase := map (map (\<lambda>v. np_div v w)) (phase e),
                               priv_phase_unit := Some u_lam\<rparr>)
          \<and> np_div (Fin r) w = Fin (r / w)"
    if h: "0 < w" "wavelength e = Some w" "xyunit e = u_um" "subscript units to = Inr u_lam"
  proof -
    have g: "phase_unit e = u_um" using h(3) by (simp add: phase_unit_def)
    have fc: "factor u_um u_lam (wavelength e) = Inr (Some w)"
      by (simp add: h(2) factor_Some)
    from h(4) have m: "map_of units to = Some u_lam"
      by (simp add: subscript_def split: option.splits)
    then have k: "to \<in> set (keys units)" using map_of_units_keys [of to] by auto
    note st = setters_on_aliases(1) [OF k m]
    from change_phase_unit_resolved(3) [OF h(4) g fc]
      change_phase_unit_resolved(4) [OF h(4) g fc st] h(1)
    show ?thesis by simp
  qed
  have c1: "wavelength e = None \<and> xyunit e = a \<and> zunit e = a \<and> subscript units to = Inr b
      \<and> ((a \<in> set [u_m, u_mm, u_um, u_nm, u_AA] \<and> b = u_lam)
          \<or> (a = u_lam \<and> b \<in> set [u_m, u_mm, u_um, u_nm, u_AA]))
      \<longrightarrow> change_phase_unit e to ip = (Inl TypeError, e)"
    using t by blast
  have c6: "wavelength e = None \<and> xyunit e = a \<and> zunit e = a \<and> subscript units to = Inr u_lam
      \<and> (a = u_lam \<or> a = u_px)
      \<longrightarrow> change_phase_unit e to False = (Inr (RetPhase (phase e)), e)"
    using one by blast
  have c8: "0 < w \<and> wavelength e = Some w \<and> xyunit e = u_um \<and> zunit e = u_um
      \<and> subscript units to = Inr u_lam
      \<longrightarrow> change_phase_unit e to False
            = (Inr (RetPhase (map (map (\<lambda>v. np_div v w)) (phase e))), e)
          \<and> change_phase_unit e to True
            = (Inr RetSelf, e\<lparr>phase := map (map (\<lambda>v. np_div v w)) (phase e),
                               priv_phase_unit := Some u_lam\<rparr>)
          \<and> np_div (Fin r) w = Fin (r / w)"
    using pos by blast
  from c1 f1 f2 factor_None(10,11) c6 factor_ignores_wavelength [of wl] c8
  show ?thesis by (intro conjI)
qed

theorem waves_need_wavelength_witness:
  "wavelength (ex_um\<lparr>wavelength := None\<rparr>) = None
   \<and> xyunit (ex_um\<lparr>wavelength := None\<rparr>) = u_um \<and> zunit (ex_um\<lparr>wavelength := None\<rparr>) = u_um
   \<and> subscript units (asc ''waves'') = Inr u_lam \<and> u_um \<in> set [u_m, u_mm, u_um, u_nm, u_AA]
   \<and> change_phase_unit (ex_um\<lparr>wavelength := None\<rparr>) (asc ''waves'') True
       = (Inl TypeError, ex_um\<lparr>wavelength := None\<rparr>)
   \<and> wavelength ex_lam = None \<and> xyunit ex_lam = u_lam \<and> zunit ex_lam = u_lam
   \<and> subscript units (956 # asc ''m'') = Inr u_um
   \<and> change_phase_unit ex_lam (956 # asc ''m'') True = (Inl TypeError, ex_lam)
   \<and> change_phase_unit ex_lam (asc ''waves'') False = (Inr (RetPhase [[Fin 1]]), ex_lam)
   \<and> u_nm \<in> set [u_m, u_mm, u_nm, u_AA]
   \<and> factor u_nm u_lam None = Inl TypeError \<and> factor u_lam u_nm None = Inl TypeError
   \<and> u_mm \<in> set canonical \<and> u_AA \<in> set canonical \<and> u_mm \<noteq> u_lam \<and> u_AA \<noteq> u_lam
   \<and> factor u_mm u_AA (Some 0.5) = factor u_mm u_AA None
   \<and> (0::real) < 0.5 \<and> wavelength ex_um = Some 0.5
   \<and> xyunit ex_um = u_um \<and> zunit ex_um = u_um
   \<and> change_phase_unit ex_um (asc ''waves'') False = (Inr (RetPhase [[Fin 2]]), ex_um)
   \<and> change_phase_unit ex_um (asc ''waves'') True
       = (Inr RetSelf, ex_um\<lparr>phase := [[Fin 2]], priv_phase_unit := Some u_lam\<rparr>)"
proof -
  have m: "u_um \<in> set [u_m, u_mm, u_um, u_nm, u_AA]" "u_nm \<in> set [u_m, u_mm, u_nm, u_AA]"
    "u_nm \<in> set [u_m, u_mm, u_um, u_nm, u_AA]"
    by simp_all
  have e0: "wavelength (ex_um\<lparr>wavelength := None\<rparr>) = None"
    "xyunit (ex_um\<lparr>wavelength := None\<rparr>) = u_um" "zunit (ex_um\<lparr>wavelength := None\<rparr>) = u_um"
    by (simp_all add: ex_um_def init_defs)
  have e1: "wavelength ex_lam = None" "xyunit ex_lam = u_lam" "zunit ex_lam = u_lam"
    "phase ex_lam = [[Fin 1]]"
    by (simp_all add: ex_lam_def init_defs)
  have e2: "wavelength ex_um = Some 0.5" "xyunit ex_um = u_um" "zunit ex_um = u_um"
    "phase ex_um = [[Fin 1]]"
    by (simp_all add: ex_um_def init_defs)
  have c: "u_mm \<in> set canonical" "u_AA \<in> set canonical" "u_mm \<noteq> u_lam" "u_AA \<noteq> u_lam"
    by (simp_all add: canonical_def unit_defs)
  have w: "(0::real) < 0.5" by simp
  note t0 = waves_need_wavelength [where e = "ex_um\<lparr>wavelength := None\<rparr>" and a = u_um
      and b = u_lam and to = "asc ''waves''" and ip = True and wl = "Some 0.5"]
  note t1 = waves_need_wavelength [where e = ex_lam and a = u_lam and b = u_um
      and to = "956 # asc ''m''" and ip = True]
  note t2 = waves_need_wavelength [where e = ex_lam and a = u_lam and to = "asc ''waves''"]
  note t3 = waves_need_wavelength [where e = ex_um and to = "asc ''waves''" and w = "0.5"
      and r = 1]
  from t0 [THEN conjunct1] e0 units_lookup(1) m(1) have h0:
    "change_phase_unit (ex_um\<lparr>wavelength := None\<rparr>) (asc ''waves'') True
       = (Inl TypeError, ex_um\<lparr>wavelength := None\<rparr>)" by simp
  from t1 [THEN conjunct1] e1 units_lookup(3) m(1) have h1:
    "change_phase_unit ex_lam (956 # asc ''m'') True = (Inl TypeError, ex_lam)" by simp
  from t2 [THEN conjunct2, THEN conjunct2, THEN conjunct2, THEN conjunct2, THEN conjunct2,
      THEN conjunct1] e1 units_lookup(1)
  have h2: "change_phase_unit ex_lam (asc ''waves'') False
                  = (Inr (RetPhase [[Fin 1]]), ex_lam)"
    by simp
  from t0 [THEN conjunct2, THEN conjunct1] m(3)
  have f1: "factor u_nm u_lam None = Inl TypeError" by blast
  from t0 [THEN conjunct2, THEN conjunct2, THEN conjunct1] m(2)
  have f2: "factor u_lam u_nm None = Inl TypeError" by blast
  note f = f1 f2
  from t0 [THEN conjunct2, THEN conjunct2, THEN conjunct2, THEN conjunct2, THEN conjunct2,
      THEN conjunct2, THEN conjunct1] c
  have i: "factor u_mm u_AA (Some 0.5) = factor u_mm u_AA None" by blast
  from t3 [THEN conjunct2, THEN conjunct2, THEN conjunct2, THEN conjunct2, THEN conjunct2,
      THEN conjunct2, THEN conjunct2] w e2 units_lookup(1)
  have j: "change_phase_unit ex_um (asc ''waves'') False
                  = (Inr (RetPhase [[Fin 2]]), ex_um)"
    "change_phase_unit ex_um (asc ''waves'') True
       = (Inr RetSelf, ex_um\<lparr>phase := [[Fin 2]], priv_phase_unit := Some u_lam\<rparr>)"
    by simp_all
  from m(1) e0 units_lookup(1) h0 e1(1-3) units_lookup(3) h1 h2 m(2) f c i w e2(1-3) j
  show ?thesis by (intro conjI)
qed

text \<open>
  The claim as stated fails. Without a wavelength, the phase of an entity in waves is
  converted to waves with the factor 1, and its conversion to pixels raises KeyError,
  which is no arithmetic or type error. With the wavelength 0.5, an entity constructed
  with the phase unit micrometers and the default spatial unit hands back \<open>[[2000.0]]\<close>
  for its phase in waves, which is not the phase divided by the wavelength, \<open>[[2.0]]\<close>:
  the getter reads the spatial unit, millimeters.
\<close>

theorem waves_need_wavelength_counterexample:
  "wavelength ex_lam = None \<and> xyunit ex_lam = u_lam \<and> zunit ex_lam = u_lam
   \<and> subscript units (asc ''waves'') = Inr u_lam
   \<and> change_phase_unit ex_lam (asc ''waves'') False = (Inr (RetPhase [[Fin 1]]), ex_lam)
   \<and> change_phase_unit ex_lam (asc ''px'') False
       = (Inl (KeyError (join_us u_lam u_px)), ex_lam)
   \<and> zunit ex_um_mm = u_um \<and> wavelength ex_um_mm = Some 0.5 \<and> phase ex_um_mm = [[Fin 1]]
   \<and> change_phase_unit ex_um_mm (asc ''waves'') False
       = (Inr (RetPhase [[Fin 2000]]), ex_um_mm)
   \<and> np_div (Fin 1) 0.5 = Fin 2"
proof -
  have a: "change_phase_unit ex_lam (asc ''waves'') False = (Inr (RetPhase [[Fin 1]]), ex_lam)"
    "change_phase_unit ex_lam (asc ''px'') False
       = (Inl (KeyError (join_us u_lam u_px)), ex_lam)"
    "wavelength ex_lam = None" "xyunit ex_lam = u_lam" "zunit ex_lam = u_lam"
    by (simp_all add: change_phase_unit_def ex_lam_def init_defs phase_unit_def units_def
        div_grid_def factor_defs unit_defs)
  have b: "zunit ex_um_mm = u_um" "wavelength ex_um_mm = Some 0.5" "phase ex_um_mm = [[Fin 1]]"
    "change_phase_unit ex_um_mm (asc ''waves'') False
       = (Inr (RetPhase [[Fin 2000]]), ex_um_mm)"
    by (simp_all add: change_phase_unit_def ex_um_mm_def init_defs phase_unit_def units_def
        div_grid_def factor_defs unit_defs)
  have c: "np_div (Fin 1) 0.5 = Fin 2" by simp
  from a b c units_lookup(1) show ?thesis by (intro conjI)
qed

section \<open>Round trips of the phase (C3)\<close>

text \<open>
  Where one factor is the inverse of the other, converting the phase from \<open>A\<close> to \<open>B\<close>
  and the result, held by an entity that is read in \<open>B\<close>, back to \<open>A\<close> gives the phase
  again.
\<close>

lemma round_trip_of_inverse:
  assumes "inverse_at a b w" and "phase_unit e = a" and "wavelength e = Some w"
    and "subscript units tb = Inr b" and "subscript units ta = Inr a"
  shows "\<exists>g. change_phase_unit e tb False = (Inr (RetPhase g), e)
           \<and> change_phase_unit (e\<lparr>phase := g, xyunit := b\<rparr>) ta False
               = (Inr (RetPhase (phase e)), e\<lparr>phase := g, xyunit := b\<rparr>)"
proof -
  have "\<exists>f h. factor a b (Some w) = Inr (Some f) \<and> factor b a (Some w) = Inr (Some h)
           \<and> h \<noteq> 0 \<and> f = 1 / h"
    using assms(1)
    by (cases "factor a b (Some w)"; cases "factor b a (Some w)")
       (auto simp: inverse_at_def split: option.splits)
  then obtain f h where
    f: "factor a b (Some w) = Inr (Some f)" and h: "factor b a (Some w) = Inr (Some h)"
    and nz: "h \<noteq> 0" and inv: "f = 1 / h"
    by blast
  let ?g = "map (map (\<lambda>v. np_div v f)) (phase e)"
  have 1: "change_phase_unit e tb False = (Inr (RetPhase ?g), e)"
    using assms(2-4) f by (simp add: change_phase_unit_def div_grid_def)
  have rt: "map (map (\<lambda>v. np_div v h)) ?g = phase e"
    by (simp add: comp_def np_div_inverse [OF nz inv])
  have 2: "change_phase_unit (e\<lparr>phase := ?g, xyunit := b\<rparr>) ta False
               = (Inr (RetPhase (phase e)), e\<lparr>phase := ?g, xyunit := b\<rparr>)"
    using assms(3,5) h rt by (simp add: change_phase_unit_def div_grid_def phase_unit_def)
  from 1 2 show ?thesis by blast
qed


text \<open>
  C3. The phase \<open>[[1.0]]\<close> in micrometers at wavelength 0.5 is converted to waves and back
  to micrometers. In place, the first call gives \<open>[[2.0]]\<close> and writes \<open>_phase_unit\<close>; the
  getter still reads micrometers, so the second call divides by \<open>\<mu>m_\<mu>m = 1\<close> and the phase
  stays \<open>[[2.0]]\<close>. Not in place, with the result \<open>[[2.0]]\<close> held by an entity that is read in
  waves, the way back divides by \<open>\<lambda>_\<mu>m = 0.5\<close> and gives \<open>[[4.0]]\<close>. Neither is the
  original \<open>[[1.0]]\<close>.
\<close>

theorem round_trip_example:
  "phase_unit ex_um = u_um \<and> zunit ex_um = u_um \<and> phase ex_um = [[Fin 1]]
   \<and> change_phase_unit ex_um [955] True
       = (Inr RetSelf, ex_um\<lparr>phase := [[Fin 2]], priv_phase_unit := Some u_lam\<rparr>)
   \<and> change_phase_unit (ex_um\<lparr>phase := [[Fin 2]], priv_phase_unit := Some u_lam\<rparr>) u_um True
       = (Inr RetSelf, ex_um\<lparr>phase := [[Fin 2]], priv_phase_unit := Some u_um\<rparr>)
   \<and> change_phase_unit ex_um [955] False = (Inr (RetPhase [[Fin 2]]), ex_um)
   \<and> phase_unit ex_waves = u_lam \<and> phase ex_waves = [[Fin 2]]
   \<and> change_phase_unit ex_waves u_um False = (Inr (RetPhase [[Fin 4]]), ex_waves)"
proof -
  have a: "phase_unit ex_um = u_um" "zunit ex_um = u_um" "phase ex_um = [[Fin 1]]"
    "wavelength ex_um = Some 0.5"
    by (simp_all add: ex_um_def init_defs phase_unit_def)
  have l: "lower [955] = [955]" "lower u_um = u_um" "[955::nat] \<noteq> [229]" "u_um \<noteq> [229]"
    "map_of units [955] = Some u_lam" "map_of units u_um = Some u_um"
    by (simp_all add: lower_simps units_def unit_defs)
  have s1: "set_phase_unit e [955] = Inr (e\<lparr>priv_phase_unit := Some u_lam\<rparr>)" for e
    by (simp add: set_phase_unit_def Let_def l)
  have s2: "set_phase_unit e u_um = Inr (e\<lparr>priv_phase_unit := Some u_um\<rparr>)" for e
    by (simp add: set_phase_unit_def Let_def l)
  have u: "subscript units u_um = Inr u_um" by (simp add: subscript_def l)
  have c1: "change_phase_unit ex_um [955] True
       = (Inr RetSelf, ex_um\<lparr>phase := [[Fin 2]], priv_phase_unit := Some u_lam\<rparr>)"
    by (simp add: change_phase_unit_def units_lookup a factor_Some div_grid_def s1)
  have c2: "change_phase_unit (ex_um\<lparr>phase := [[Fin 2]], priv_phase_unit := Some u_lam\<rparr>) u_um True
       = (Inr RetSelf, ex_um\<lparr>phase := [[Fin 2]], priv_phase_unit := Some u_um\<rparr>)"
    using a by (simp add: change_phase_unit_def u phase_unit_def factor_Some div_grid_def s2)
  have c3: "change_phase_unit ex_um [955] False = (Inr (RetPhase [[Fin 2]]), ex_um)"
    by (simp add: change_phase_unit_def units_lookup a factor_Some div_grid_def)
  have b: "phase_unit ex_waves = u_lam" "phase ex_waves = [[Fin 2]]" "wavelength ex_waves = Some 0.5"
    by (simp_all add: ex_waves_def init_defs phase_unit_def)
  have c4: "change_phase_unit ex_waves u_um False = (Inr (RetPhase [[Fin 4]]), ex_waves)"
    by (simp add: change_phase_unit_def u b factor_Some div_grid_def)
  from a b c1 c2 c3 c4 show ?thesis by (intro conjI)
qed

section \<open>Conversion of the axes to pixels (C4)\<close>

lemma ex_grid_fields:
  "x_axis ex_grid = [Fin 0, Fin 0.5]" "y_axis ex_grid = [Fin 0, Fin 0.5, Fin 1]"
  "phase ex_grid = [[Fin 1, Fin 2], [Fin 3, Fin 4], [Fin 5, Fin 6]]" "zunit ex_grid = u_mm" "xyunit ex_grid = u_mm"
  "wavelength ex_grid = None" "shape ex_grid = (3, 2)"
  by (simp_all add: ex_grid_def init_defs shape_def)

lemma arange_values: "arange 2 = [Fin 0, Fin 1]" "arange 3 = [Fin 0, Fin 1, Fin 2]"
  by (simp_all add: arange_def upt_conv_Cons)

text \<open>
  C4. On an entity in millimeters with a grid of three rows and two columns, the target
  \<open>'pixel'\<close>, which the alias table resolves to \<open>px\<close>, does not skip the lookup: its
  lower-casing is not \<open>'px'\<close>, the key \<open>mm_px\<close> is not in the table and the call raises
  KeyError, in place or not. On an entity whose spatial unit is read as \<open>px\<close> the same
  target finds \<open>px_px\<close> and hands back the axes as they are. The target \<open>'PX'\<close> gives the
  index sequences \<open>[0, 1]\<close> and \<open>[0, 1, 2]\<close>.
\<close>

theorem pixel_alias_example:
  "subscript units (asc ''pixel'') = Inr u_px
   \<and> spatial_unit ex_grid = u_mm \<and> xyunit ex_grid = u_mm
   \<and> change_spatial_unit ex_grid (asc ''pixel'') False
       = (Inl (KeyError (join_us u_mm u_px)), ex_grid)
   \<and> change_spatial_unit ex_grid (asc ''pixel'') True
       = (Inl (KeyError (join_us u_mm u_px)), ex_grid)
   \<and> change_spatial_unit (ex_grid\<lparr>zunit := u_px\<rparr>) (asc ''pixel'') False
       = (Inr (RetAxes [Fin 0, Fin 0.5] [Fin 0, Fin 0.5, Fin 1]), ex_grid\<lparr>zunit := u_px\<rparr>)
   \<and> change_spatial_unit ex_grid (asc ''PX'') False = (Inr (RetAxes [Fin 0, Fin 1] [Fin 0, Fin 1, Fin 2]), ex_grid)"
proof -
  have l: "lower (asc ''pixel'') \<noteq> asc ''px''" "lower (asc ''PX'') = asc ''px''"
    by (simp_all add: asc_def lower_simps)
  have n1: "new_axes ex_grid (asc ''pixel'') = Inl (KeyError (join_us u_mm u_px))"
    by (simp add: new_axes_def l units_lookup spatial_unit_def ex_grid_fields factor_to_px)
  have n2: "new_axes (ex_grid\<lparr>zunit := u_px\<rparr>) (asc ''pixel'') = Inr ([Fin 0, Fin 0.5], [Fin 0, Fin 0.5, Fin 1])"
    by (simp add: new_axes_def l units_lookup spatial_unit_def ex_grid_fields factor_const
        div_axis_def)
  have c1: "change_spatial_unit ex_grid (asc ''pixel'') ip
       = (Inl (KeyError (join_us u_mm u_px)), ex_grid)" for ip
    by (simp add: change_spatial_unit_def n1)
  have c2: "change_spatial_unit (ex_grid\<lparr>zunit := u_px\<rparr>) (asc ''pixel'') False
       = (Inr (RetAxes [Fin 0, Fin 0.5] [Fin 0, Fin 0.5, Fin 1]), ex_grid\<lparr>zunit := u_px\<rparr>)"
    by (simp add: change_spatial_unit_def n2)
  have c3: "change_spatial_unit ex_grid (asc ''PX'') False
       = (Inr (RetAxes [Fin 0, Fin 1] [Fin 0, Fin 1, Fin 2]), ex_grid)"
    using px_regenerates(1) [OF l(2), of ex_grid] by (simp add: ex_grid_fields arange_values)
  have g: "spatial_unit ex_grid = u_mm" by (simp add: spatial_unit_def ex_grid_fields)
  from units_lookup(5) g ex_grid_fields(5) c1 [of False] c1 [of True] c2 c3
  show ?thesis by (intro conjI)
qed

section \<open>Conversions in place (C7)\<close>

lemma not_inplace_unchanged:
  "snd (change_phase_unit e to False) = e" "snd (change_spatial_unit e to False) = e"
  by (simp_all add: change_phase_unit_def change_spatial_unit_def
      split: sum.splits prod.splits)

lemma inplace_returns_self:
  "change_phase_unit e to True = (Inr r, e') \<Longrightarrow> r = RetSelf"
  "change_spatial_unit e to True = (Inr r, e') \<Longrightarrow> r = RetSelf"
  by (auto simp: change_phase_unit_def change_spatial_unit_def Let_def
      split: sum.splits prod.splits)

text \<open>
  C7. On an entity in micrometers, \<open>change_phase_unit('nm', inplace=True)\<close> returns the
  entity with the phase replaced by \<open>[[1000.0]]\<close> and with \<open>_phase_unit\<close> set, and the
  unit read back as \<open>phase_unit\<close> is still micrometers, not nanometers. On an entity in
  millimeters, \<open>change_spatial_unit\<close> to A with ring in place replaces both axes and then
  raises the invalid-unit error from the setter instead of returning the entity.
\<close>

theorem inplace_example:
  "phase_unit ex_um = u_um \<and> subscript units (asc ''nm'') = Inr u_nm
   \<and> change_phase_unit ex_um (asc ''nm'') True
       = (Inr RetSelf, ex_um\<lparr>phase := [[Fin 1000]], priv_phase_unit := Some u_nm\<rparr>)
   \<and> phase_unit (ex_um\<lparr>phase := [[Fin 1000]], priv_phase_unit := Some u_nm\<rparr>) = u_um
   \<and> u_um \<noteq> u_nm
   \<and> change_spatial_unit ex_grid [197] True
       = (Inl (ValueError [229] (keys units)),
          ex_grid\<lparr>x_axis := [Fin 0, Fin 5000000], y_axis := [Fin 0, Fin 5000000, Fin 10000000]\<rparr>)"
proof -
  have a: "phase_unit ex_um = u_um" "phase ex_um = [[Fin 1]]" "wavelength ex_um = Some 0.5"
    by (simp_all add: ex_um_def init_defs phase_unit_def)
  have l: "lower (asc ''nm'') = asc ''nm''" "asc ''nm'' \<noteq> [229]"
    "map_of units (asc ''nm'') = Some u_nm"
    by (simp_all add: lower_simps units_def unit_defs)
  have s: "set_phase_unit e (asc ''nm'') = Inr (e\<lparr>priv_phase_unit := Some u_nm\<rparr>)" for e
    by (simp add: set_phase_unit_def Let_def l)
  have c1: "change_phase_unit ex_um (asc ''nm'') True
       = (Inr RetSelf, ex_um\<lparr>phase := [[Fin 1000]], priv_phase_unit := Some u_nm\<rparr>)"
    by (simp add: change_phase_unit_def units_lookup a factor_const div_grid_def s)
  have g: "phase_unit (ex_um\<lparr>phase := [[Fin 1000]], priv_phase_unit := Some u_nm\<rparr>) = u_um"
    using a by (simp add: phase_unit_def)
  have d: "u_um \<noteq> u_nm" by (simp add: unit_defs)
  have la: "lower [197] \<noteq> asc ''px''" by (simp add: lower_simps asc_def)
  have n: "new_axes ex_grid [197] = Inr ([Fin 0, Fin 5000000], [Fin 0, Fin 5000000, Fin 10000000])"
    by (simp add: new_axes_def la units_lookup spatial_unit_def ex_grid_fields factor_const
        div_axis_def)
  have r: "set_spatial_unit e [197] = Inl (ValueError [229] (keys units))" for e
    using setters_reject(2) [of "[197]" e] lower_upper_AA by simp
  have c2: "change_spatial_unit ex_grid [197] True
       = (Inl (ValueError [229] (keys units)),
          ex_grid\<lparr>x_axis := [Fin 0, Fin 5000000], y_axis := [Fin 0, Fin 5000000, Fin 10000000]\<rparr>)"
    by (simp add: change_spatial_unit_def n r)
  from a(1) units_lookup(4) c1 g d c2 show ?thesis by (intro conjI)
qed

text \<open>
  A wavelength of zero makes the factor from micrometers to waves zero. numpy divides by
  it without raising, and the call in place stores the result and writes \<open>_phase_unit\<close>.
\<close>

lemma zero_wavelength_example:
  "change_phase_unit ex_zero [955] True
     = (Inr RetSelf, ex_zero\<lparr>phase := [[PInf, NaN, NInf]], priv_phase_unit := Some u_lam\<rparr>)"
proof -
  have a: "phase_unit ex_zero = u_um" "phase ex_zero = [[Fin 1, Fin 0, Fin (- 1)]]"
    "wavelength ex_zero = Some 0"
    by (simp_all add: ex_zero_def init_defs phase_unit_def)
  have l: "lower [955] = [955]" "[955::nat] \<noteq> [229]" "map_of units [955] = Some u_lam"
    by (simp_all add: lower_simps units_def unit_defs)
  have s: "set_phase_unit e [955] = Inr (e\<lparr>priv_phase_unit := Some u_lam\<rparr>)" for e
    by (simp add: set_phase_unit_def Let_def l)
  show ?thesis
    by (simp add: change_phase_unit_def units_lookup a factor_Some div_grid_def s)
qed

section \<open>The units that can be read (C8)\<close>

text \<open>
  C8. The \<open>spatial_unit\<close> setter rejects A with ring, which is a listed alias and a
  canonical code. An entity constructed with the alias \<open>'micron'\<close> as its spatial unit
  reads \<open>'micron'\<close> as its phase unit, which is no canonical code. Setting the phase unit
  of an entity in millimeters to \<open>'micron'\<close> stores the canonical code in \<open>_phase_unit\<close>,
  and the phase unit read back is still millimeters.
\<close>

theorem canonical_units_example:
  "[197] \<in> set (keys units) \<and> [197] \<in> set canonical
   \<and> set_spatial_unit ex_nm [197] = Inl (ValueError [229] (keys units))
   \<and> phase_unit ex_alias = asc ''micron'' \<and> asc ''micron'' \<notin> set canonical
   \<and> set_phase_unit ex_nm (asc ''micron'') = Inr (ex_nm\<lparr>priv_phase_unit := Some u_um\<rparr>)
   \<and> phase_unit (ex_nm\<lparr>priv_phase_unit := Some u_um\<rparr>) = u_mm"
proof -
  have k: "[197] \<in> set (keys units)" unfolding keys_units_list by simp
  have c: "[197] \<in> set canonical" "asc ''micron'' \<notin> set canonical"
    by (simp_all add: canonical_def unit_defs)
  have r: "set_spatial_unit ex_nm [197] = Inl (ValueError [229] (keys units))"
    using setters_reject(2) [of "[197]" ex_nm] lower_upper_AA by simp
  have p: "phase_unit ex_alias = asc ''micron''"
    by (simp add: ex_alias_def init_defs phase_unit_def)
  have l: "lower (asc ''micron'') = asc ''micron''" "asc ''micron'' \<noteq> [229]"
    "map_of units (asc ''micron'') = Some u_um"
    by (simp_all add: lower_simps units_def unit_defs)
  have s: "set_phase_unit ex_nm (asc ''micron'') = Inr (ex_nm\<lparr>priv_phase_unit := Some u_um\<rparr>)"
    by (simp add: set_phase_unit_def Let_def l)
  have g: "phase_unit (ex_nm\<lparr>priv_phase_unit := Some u_um\<rparr>) = u_mm"
    by (simp add: phase_unit_def ex_nm_def init_defs)
  from k c r p s g show ?thesis by (intro conjI)
qed

end
